theory Spec2Isabelle
  imports Main "HOL-Library.Word"
begin

unbundle bit_operations_syntax

section \<open>Telemetry codec (src/src/utils/collectPayload.js, encodePayload)\<close>

text \<open>
  The codec is the inner function of \<^verbatim>\<open>encodePayload\<close> (lines 9-97): it receives the array
  of byte values of the UTF-8 encoding of the input (built by lines 5-8) and returns a string
  over a 64-character alphabet. The model works on that byte array, a \<open>nat list\<close>.

  The mutable variables of the closure are the fields of \<open>enc_state\<close>:
  \<^item> \<open>tbl_n\<close> is the sparse array \<^verbatim>\<open>n\<close> (hash bucket to position + 1); \<open>None\<close> is \<^verbatim>\<open>undefined\<close>;
  \<^item> \<open>chain_r\<close> is the array \<^verbatim>\<open>r\<close> of previous occurrences; an entry is a position, or
    \<open>None\<close> for a hole and for the \<^verbatim>\<open>NaN\<close> that \<^verbatim>\<open>undefined - 1\<close> gives (both fail the test
    \<^verbatim>\<open>o >= 0\<close> of the chain walk);
  \<^item> \<open>run_s\<close> is \<^verbatim>\<open>s\<close>, the start of the pending literal run, or -1;
  \<^item> \<open>skip_o\<close> is the outer \<^verbatim>\<open>o\<close>, the first position after the last match;
  \<^item> \<open>acc_l\<close>, \<open>bits_c\<close> and \<open>out_d\<close> are the packer's \<^verbatim>\<open>l\<close>, \<^verbatim>\<open>c\<close> and \<^verbatim>\<open>d\<close>.
  The loop counters \<^verbatim>\<open>a\<close> and \<^verbatim>\<open>u\<close> are arguments of the loop functions.
\<close>

record enc_state =
  tbl_n :: "nat \<Rightarrow> nat option"
  chain_r :: "int \<Rightarrow> nat option"
  run_s :: int
  skip_o :: nat
  acc_l :: nat
  bits_c :: nat
  out_d :: string

definition init_state :: enc_state where
  "init_state = \<lparr>tbl_n = (\<lambda>_. None), chain_r = (\<lambda>_. None), run_s = -1, skip_o = 0,
                 acc_l = 0, bits_c = 0, out_d = []\<rparr>"

definition alphabet_t :: string where
  "alphabet_t = ''ABCDEFGHIJKLMNOPQRSTUVWXYZabcdefghijklmnopqrstuvwxyz0123456789-_''"

text \<open>\<^verbatim>\<open>writeChar\<close>: \<^verbatim>\<open>charAt\<close> gives the empty string out of range.\<close>

definition writeChar :: "nat \<Rightarrow> enc_state \<Rightarrow> enc_state" where
  "writeChar e st =
     st\<lparr>out_d := out_d st @ (if e < length alphabet_t then [alphabet_t ! e] else [])\<rparr>"

text \<open>
  \<^verbatim>\<open>encodeByte\<close> (lines 84-93). \<^verbatim>\<open>l << 6 - c\<close> is \<^verbatim>\<open>l << (6 - c)\<close>; the bit count
  \<^verbatim>\<open>c\<close> only takes the values 0, 2 and 4 between calls.
\<close>

definition encodeByte :: "nat \<Rightarrow> enc_state \<Rightarrow> enc_state" where
  "encodeByte e st =
     (let t0 = push_bit (6 - bits_c st) (acc_l st);
          l' = 255 AND e;
          c' = bits_c st + 2;
          t1 = t0 OR drop_bit c' l';
          st1 = writeChar (63 AND t1) (st\<lparr>acc_l := l', bits_c := c'\<rparr>)
      in if c' \<ge> 6
         then writeChar (63 AND drop_bit (c' - 6) l') (st1\<lparr>bits_c := c' - 6\<rparr>)
         else st1)"

definition emit_bytes :: "nat list \<Rightarrow> enc_state \<Rightarrow> enc_state" where
  "emit_bytes bs st = foldl (\<lambda>s b. encodeByte b s) st bs"

text \<open>Reading \<^verbatim>\<open>i[k]\<close>: out of range it is \<^verbatim>\<open>undefined\<close>, which the bit operations take as 0.\<close>

definition byte_at :: "nat list \<Rightarrow> nat \<Rightarrow> nat" where
  "byte_at bytes k = (if k < length bytes then bytes ! k else 0)"

text \<open>
  \<^verbatim>\<open>calculateHash\<close> (lines 61-67). \<^verbatim>\<open>e *= 16777619\<close> is a multiplication of doubles: an
  integer product of more than 53 bits is rounded to the nearest double, ties to even
  (\<open>round_double\<close>). \<^verbatim>\<open>e ^= i[t]\<close> takes the product modulo \<open>2 ^ 32\<close> and leaves a signed
  32-bit value.
\<close>

fun bit_length :: "nat \<Rightarrow> nat" where
  "bit_length n = (if n = 0 then 0 else Suc (bit_length (n div 2)))"

declare bit_length.simps [simp del]

definition round_double :: "int \<Rightarrow> int" where
  "round_double p =
     (let m = nat \<bar>p\<bar>; w = bit_length m in
      if w \<le> 53 then p
      else let q = 2 ^ (w - 53); d = m div q; rest = m mod q;
               up = (if 2 * rest > q \<or> (2 * rest = q \<and> odd d) then (d + 1) * q else d * q)
           in sgn p * int up)"

definition hash_step :: "int \<Rightarrow> nat \<Rightarrow> int" where
  "hash_step e b = sint ((word_of_int (round_double (e * 16777619)) :: 32 word) XOR word_of_nat b)"

definition calculateHash :: "nat list \<Rightarrow> nat \<Rightarrow> nat" where
  "calculateHash bytes a =
     unat ((word_of_int (foldl (\<lambda>e t. hash_step e (byte_at bytes t)) 0 [a ..< a + 3]) :: 32 word)
           AND 16383)"

text \<open>\<^verbatim>\<open>findMatchLength\<close> (lines 68-75), at the current position \<^verbatim>\<open>a\<close>.\<close>

function fml_loop :: "nat list \<Rightarrow> nat \<Rightarrow> nat \<Rightarrow> nat \<Rightarrow> nat" where
  "fml_loop bytes r t n =
     (if t < r \<and> n < length bytes \<and> t < length bytes \<and> bytes ! t = bytes ! n
      then fml_loop bytes r (t + 1) (n + 1) else t)"
  by pat_completeness auto
termination
  by (relation "measure (\<lambda>(bytes, r, t, n). r - t)") auto

declare fml_loop.simps [simp del]

definition findMatchLength :: "nat list \<Rightarrow> nat \<Rightarrow> nat \<Rightarrow> nat" where
  "findMatchLength bytes a e = fml_loop bytes (min (e + 130) a) e a - e"

text \<open>
  \<^verbatim>\<open>encodeLiterals\<close> (lines 76-83): the pending run from \<^verbatim>\<open>s\<close> to \<^verbatim>\<open>a\<close>, in blocks of at
  most 127 bytes, each after the control byte \<^verbatim>\<open>255 & -t\<close>.
\<close>

function lit_inner :: "nat list \<Rightarrow> nat \<Rightarrow> nat \<Rightarrow> nat \<Rightarrow> enc_state \<Rightarrow> enc_state" where
  "lit_inner bytes a lim n st =
     (if n < a \<and> n < lim then lit_inner bytes a lim (n + 1) (encodeByte (byte_at bytes n) st)
      else st)"
  by pat_completeness auto
termination
  by (relation "measure (\<lambda>(bytes, a, lim, n, st). a - n)") auto

declare lit_inner.simps [simp del]

function lit_outer :: "nat list \<Rightarrow> nat \<Rightarrow> nat \<Rightarrow> enc_state \<Rightarrow> enc_state" where
  "lit_outer bytes a e st =
     (if e < a
      then let t = min 127 (a - e);
               st1 = encodeByte (nat (255 AND (- int t))) st
           in lit_outer bytes a (e + 127) (lit_inner bytes a (e + t) e st1)
      else st)"
  by pat_completeness auto
termination
  by (relation "measure (\<lambda>(bytes, a, e, st). a - e)") auto

declare lit_outer.simps [simp del]

definition encodeLiterals :: "nat list \<Rightarrow> nat \<Rightarrow> enc_state \<Rightarrow> enc_state" where
  "encodeLiterals bytes a st = lit_outer bytes a (nat (run_s st)) st"

text \<open>
  The walk along the chain of earlier positions with the same hash (lines 35-41):
  \<^verbatim>\<open>for (; 130 != t && o >= 0 && o >= a - e; ) { ... o = r[o - u] }\<close>. Nothing in the loop
  itself makes the candidate decrease, so the walk is a partial function: \<open>None\<close> is a
  walk that never ends.
\<close>

partial_function (option) walk_chain ::
  "nat list \<Rightarrow> (int \<Rightarrow> nat option) \<Rightarrow> nat \<Rightarrow> nat \<Rightarrow> nat option \<Rightarrow> nat \<Rightarrow> nat \<Rightarrow> (nat \<times> nat) option"
where
  "walk_chain bytes r u a cand t i =
     (case cand of
        None \<Rightarrow> Some (t, i)
      | Some ob \<Rightarrow>
          if t \<noteq> 130 \<and> int a - 16384 \<le> int ob
          then if 3 \<le> findMatchLength bytes a ob \<and> t < findMatchLength bytes a ob
               then walk_chain bytes r u a (r (int ob - int u))
                      (findMatchLength bytes a ob) (a - ob - findMatchLength bytes a ob)
               else walk_chain bytes r u a (r (int ob - int u)) t i
          else Some (t, i))"

declare walk_chain.simps [code]

text \<open>
  The varint loop of a match token (lines 50-53):
  \<^verbatim>\<open>for (...; i > 127; ) encodeByte(127 & i | 128), i >>= 7; encodeByte(i)\<close>.
\<close>

function emitDistance :: "nat \<Rightarrow> enc_state \<Rightarrow> enc_state" where
  "emitDistance i st =
     (if i > 127 then emitDistance (drop_bit 7 i) (encodeByte ((127 AND i) OR 128) st)
      else encodeByte i st)"
  by pat_completeness auto
termination
  by (relation "measure (\<lambda>(i, st). i)") (auto simp: drop_bit_eq_div)

declare emitDistance.simps [simp del]

text \<open>The branch \<^verbatim>\<open>t >= 3\<close> of lines 46-53: a match of length \<^verbatim>\<open>t\<close> with distance field \<^verbatim>\<open>i\<close>.\<close>

definition flushForMatch :: "nat list \<Rightarrow> nat \<Rightarrow> nat \<Rightarrow> enc_state \<Rightarrow> enc_state" where
  "flushForMatch bytes a t st =
     (let st1 = st\<lparr>skip_o := a + t\<rparr>
      in if run_s st1 \<noteq> -1 then (encodeLiterals bytes a st1)\<lparr>run_s := -1\<rparr> else st1)"

definition emitMatch :: "nat list \<Rightarrow> nat \<Rightarrow> nat \<Rightarrow> nat \<Rightarrow> enc_state \<Rightarrow> enc_state" where
  "emitMatch bytes a t i st = emitDistance i (encodeByte (t - 3) (flushForMatch bytes a t st))"

text \<open>Lines 46-55: emit the match, or start a literal run.\<close>

definition emitOrLiteral :: "nat list \<Rightarrow> nat \<Rightarrow> nat \<Rightarrow> nat \<Rightarrow> enc_state \<Rightarrow> enc_state" where
  "emitOrLiteral bytes a t i st =
     (if t \<ge> 3 then emitMatch bytes a t i st
      else if a \<ge> skip_o st \<and> run_s st = -1 then st\<lparr>run_s := int a\<rparr> else st)"

text \<open>The body of the loop of \<^verbatim>\<open>processChunk\<close> at position \<^verbatim>\<open>a\<close> (lines 30-55).\<close>

definition processPosition ::
  "nat list \<Rightarrow> nat \<Rightarrow> int \<Rightarrow> nat \<Rightarrow> enc_state \<Rightarrow> enc_state option" where
  "processPosition bytes u l a st =
     (if int a < l
      then let h = calculateHash bytes a;
               prev = map_option (\<lambda>v. v - 1) (tbl_n st h);
               st1 = st\<lparr>chain_r := (chain_r st)(int a - int u := prev),
                        tbl_n := (tbl_n st)(h \<mapsto> a + 1)\<rparr>
           in case (if a \<ge> skip_o st then walk_chain bytes (chain_r st) u a prev 0 0
                    else Some (0, 0)) of
                None \<Rightarrow> None
              | Some (t, i) \<Rightarrow> Some (emitOrLiteral bytes a t i st1)
      else Some (emitOrLiteral bytes a 0 0 st))"

function chunk_loop ::
  "nat list \<Rightarrow> nat \<Rightarrow> nat \<Rightarrow> int \<Rightarrow> nat \<Rightarrow> enc_state \<Rightarrow> (nat \<times> enc_state) option" where
  "chunk_loop bytes u t l a st =
     (if a < t
      then case processPosition bytes u l a st of
             None \<Rightarrow> None
           | Some st' \<Rightarrow> chunk_loop bytes u t l (a + 1) st'
      else Some (a, st))"
  by pat_completeness auto
termination
  by (relation "measure (\<lambda>(bytes, u, t, l, a, st). t - a)") auto

declare chunk_loop.simps [simp del]

definition getMin :: "int \<Rightarrow> int \<Rightarrow> int" where
  "getMin e t = min e t"

definition processChunk ::
  "nat list \<Rightarrow> nat \<Rightarrow> nat \<Rightarrow> enc_state \<Rightarrow> (nat \<times> enc_state) option" where
  "processChunk bytes u a st =
     (let t = getMin (int u + 32768) (int (length bytes));
          l = getMin t (int (length bytes) - 3 + 1)
      in chunk_loop bytes u (nat t) l a st)"

text \<open>\<^verbatim>\<open>r.slice(e)\<close>: the entries from index 16384 on, moved down to index 0.\<close>

definition slice_r :: "(int \<Rightarrow> nat option) \<Rightarrow> (int \<Rightarrow> nat option)" where
  "slice_r r = (\<lambda>k. if k < 0 then None else r (k + 16384))"

text \<open>The loop of lines 20-22 over chunks of 16384 bytes.\<close>

function outer_loop ::
  "nat list \<Rightarrow> nat \<Rightarrow> nat \<Rightarrow> enc_state \<Rightarrow> (nat \<times> enc_state) option" where
  "outer_loop bytes u a st =
     (if u < length bytes \<and> a < length bytes
      then case processChunk bytes u a
                  (if u > 0 then st\<lparr>chain_r := slice_r (chain_r st)\<rparr> else st) of
             None \<Rightarrow> None
           | Some (a', st') \<Rightarrow> outer_loop bytes (u + 16384) a' st'
      else Some (a, st))"
  by pat_completeness auto
termination
  by (relation "measure (\<lambda>(bytes, u, a, st). length bytes - u)") auto

declare outer_loop.simps [simp del]

text \<open>Lines 23-25: flush the pending literal run, then the bits left in the accumulator.\<close>

definition flushBits :: "enc_state \<Rightarrow> enc_state" where
  "flushBits st =
     (if bits_c st = 2 then writeChar (push_bit 4 (acc_l st) AND 63) st
      else if bits_c st = 4 then writeChar (push_bit 2 (acc_l st) AND 63) st
      else st)"

definition encodeBytes :: "nat list \<Rightarrow> string option" where
  "encodeBytes bytes =
     (case outer_loop bytes 0 0 (encodeByte 19 init_state) of
        None \<Rightarrow> None
      | Some (a, st) \<Rightarrow>
          Some (out_d (flushBits (if run_s st \<noteq> -1 then encodeLiterals bytes a st else st))))"

text \<open>
  The packer alone: the bytes \<open>bs\<close> given to \<^verbatim>\<open>encodeByte\<close> one after the other from the
  initial state, then the final flush of the accumulator.
\<close>

definition pack6 :: "nat list \<Rightarrow> string" where
  "pack6 bs = out_d (flushBits (emit_bytes bs init_state))"

text \<open>
  The variable-length integer of the specification: groups of 7 bits, least significant
  group first, bit \<open>0x80\<close> set on every byte but the last.
\<close>

function varint :: "nat \<Rightarrow> nat list" where
  "varint v = (if v < 128 then [v] else (v mod 128 + 128) # varint (v div 128))"
  by pat_completeness auto
termination
  by (relation "measure (\<lambda>v. v)") auto

declare varint.simps [simp del]

text \<open>
  What the chain walk hands to lines 46-55: no match (\<open>t = 0\<close>), or a match of length
  \<open>t\<close> between 3 and 130 with an earlier occurrence at \<open>ob\<close> that ends at or before the
  current position; the field \<open>i\<close> the code computes (\<^verbatim>\<open>i = a - o - t\<close>) is the number of
  bytes between the end of that occurrence and the current position.
\<close>

definition token_ok :: "nat list \<Rightarrow> nat \<Rightarrow> nat \<Rightarrow> nat \<Rightarrow> bool" where
  "token_ok bytes a t i \<longleftrightarrow>
     (t = 0 \<and> i = 0) \<or>
     (3 \<le> t \<and> t \<le> 130 \<and>
      (\<exists>ob. ob + t \<le> a \<and> findMatchLength bytes a ob = t \<and> i = a - ob - t))"

section \<open>The scraping server (src/dump/dump.ts): strings and values\<close>

text \<open>
  JavaScript strings are modelled as \<open>string\<close>, a list of 8-bit characters: the text of
  URLs, cookies and response bodies as bytes. The functions below are the string methods
  the source calls, on that model; case conversion and white space cover ASCII.
\<close>

text \<open>\<^verbatim>\<open>s.startsWith(p)\<close>\<close>

fun starts_with :: "string \<Rightarrow> string \<Rightarrow> bool" where
  "starts_with [] s = True"
| "starts_with (p # ps) [] = False"
| "starts_with (p # ps) (c # cs) = (p = c \<and> starts_with ps cs)"

text \<open>\<^verbatim>\<open>s.includes(p)\<close>\<close>

fun js_includes :: "string \<Rightarrow> string \<Rightarrow> bool" where
  "js_includes p [] = (p = [])"
| "js_includes p (c # cs) = (starts_with p (c # cs) \<or> js_includes p cs)"

text \<open>\<^verbatim>\<open>s.split(sep)\<close> for a separator of one character\<close>

fun split_on :: "char \<Rightarrow> string \<Rightarrow> string list" where
  "split_on sep [] = [[]]"
| "split_on sep (c # cs) =
     (if c = sep then [] # split_on sep cs
      else case split_on sep cs of
             [] \<Rightarrow> [[c]]
           | l # ls \<Rightarrow> (c # l) # ls)"

text \<open>\<^verbatim>\<open>s.replace(p, r)\<close> with a string pattern: the first occurrence only\<close>

fun replace_first :: "string \<Rightarrow> string \<Rightarrow> string \<Rightarrow> string" where
  "replace_first p r [] = (if p = [] then r else [])"
| "replace_first p r (c # cs) =
     (if starts_with p (c # cs) then r @ drop (length p) (c # cs)
      else c # replace_first p r cs)"

text \<open>\<^verbatim>\<open>s.replace(/p/g, r)\<close> for a pattern without metacharacters: every occurrence\<close>

function replace_all :: "string \<Rightarrow> string \<Rightarrow> string \<Rightarrow> string" where
  "replace_all p r s =
     (if p = [] \<or> s = [] then s
      else if starts_with p s then r @ replace_all p r (drop (length p) s)
      else hd s # replace_all p r (tl s))"
  by pat_completeness auto
termination
  by (relation "measure (\<lambda>(p, r, s). length s)") (auto simp: neq_Nil_conv)

declare replace_all.simps [simp del]

definition is_space :: "char \<Rightarrow> bool" where
  "is_space c \<longleftrightarrow> c \<in> set [CHR '' '', CHR 0x09, CHR 0x0A, CHR 0x0B, CHR 0x0C, CHR 0x0D]"

text \<open>\<^verbatim>\<open>s.trim()\<close>\<close>

definition trim :: "string \<Rightarrow> string" where
  "trim s = rev (dropWhile is_space (rev (dropWhile is_space s)))"

definition upper_table :: "(char \<times> char) list" where
  "upper_table = zip ''abcdefghijklmnopqrstuvwxyz'' ''ABCDEFGHIJKLMNOPQRSTUVWXYZ''"

definition lower_table :: "(char \<times> char) list" where
  "lower_table = zip ''ABCDEFGHIJKLMNOPQRSTUVWXYZ'' ''abcdefghijklmnopqrstuvwxyz''"

definition toUpperCase :: "string \<Rightarrow> string" where
  "toUpperCase s = map (\<lambda>c. case map_of upper_table c of Some d \<Rightarrow> d | None \<Rightarrow> c) s"

definition toLowerCase :: "string \<Rightarrow> string" where
  "toLowerCase s = map (\<lambda>c. case map_of lower_table c of Some d \<Rightarrow> d | None \<Rightarrow> c) s"

text \<open>\<^verbatim>\<open>a || b\<close> on strings: the empty string is falsy.\<close>

definition or_str :: "string \<Rightarrow> string \<Rightarrow> string" where
  "or_str a b = (if a = [] then b else a)"

text \<open>\<^verbatim>\<open>a || b\<close> where \<open>a\<close> may be \<^verbatim>\<open>undefined\<close> or \<^verbatim>\<open>null\<close> (\<open>None\<close>) or a string.\<close>

definition or_opt :: "string option \<Rightarrow> string \<Rightarrow> string" where
  "or_opt a b = (case a of None \<Rightarrow> b | Some s \<Rightarrow> or_str s b)"

text \<open>\<^verbatim>\<open>a || undefined\<close>: a non-empty string, or \<^verbatim>\<open>undefined\<close>.\<close>

definition or_undefined :: "string option \<Rightarrow> string option" where
  "or_undefined a = (case a of None \<Rightarrow> None | Some s \<Rightarrow> if s = [] then None else Some s)"

text \<open>Decimal and hexadecimal digits: \<^verbatim>\<open>String(n)\<close>, \<^verbatim>\<open>v.toString(16)\<close>, \<^verbatim>\<open>padStart\<close>.\<close>

definition digit_char :: "nat \<Rightarrow> char" where
  "digit_char d = ''0123456789abcdef'' ! (d mod 16)"

function show_nat :: "nat \<Rightarrow> string" where
  "show_nat n = (if n < 10 then [digit_char n] else show_nat (n div 10) @ [digit_char (n mod 10)])"
  by pat_completeness auto
termination
  by (relation "measure (\<lambda>n. n)") auto

declare show_nat.simps [simp del]

definition padStart :: "nat \<Rightarrow> char \<Rightarrow> string \<Rightarrow> string" where
  "padStart w c s = replicate (w - length s) c @ s"

definition is_digit :: "char \<Rightarrow> bool" where
  "is_digit c \<longleftrightarrow> c \<in> set ''0123456789''"

definition digit_val :: "char \<Rightarrow> nat" where
  "digit_val c = (case map_of (zip ''0123456789'' [0 ..< 10]) c of Some d \<Rightarrow> d | None \<Rightarrow> 0)"

text \<open>
  \<^verbatim>\<open>parseInt(s, 10)\<close>: leading white space, an optional sign, then the longest run of
  digits; \<open>None\<close> is \<^verbatim>\<open>NaN\<close>.
\<close>

definition parseInt10 :: "string \<Rightarrow> int option" where
  "parseInt10 s =
     (let s1 = dropWhile is_space s;
          neg = (s1 \<noteq> [] \<and> hd s1 = CHR ''-'');
          s2 = (if s1 \<noteq> [] \<and> (hd s1 = CHR ''-'' \<or> hd s1 = CHR ''+'') then tl s1 else s1);
          ds = takeWhile is_digit s2;
          v = int (foldl (\<lambda>acc d. 10 * acc + digit_val d) 0 ds)
      in if ds = [] then None else Some (if neg then - v else v))"

text \<open>
  JavaScript values as far as the payloads and the decoded responses need them: an object
  is the list of its properties in insertion order. Numbers are integers here.
\<close>

datatype js_val =
    JUndefined
  | JNull
  | JBool bool
  | JNum int
  | JStr string
  | JArr "js_val list"
  | JObj "(string \<times> js_val) list"

text \<open>\<^verbatim>\<open>v?.k\<close> for a property name that only objects carry\<close>

fun get_prop :: "js_val \<Rightarrow> string \<Rightarrow> js_val" where
  "get_prop (JObj kvs) k = (case map_of kvs k of Some v \<Rightarrow> v | None \<Rightarrow> JUndefined)"
| "get_prop _ k = JUndefined"

fun truthy :: "js_val \<Rightarrow> bool" where
  "truthy JUndefined = False"
| "truthy JNull = False"
| "truthy (JBool b) = b"
| "truthy (JNum n) = (n \<noteq> 0)"
| "truthy (JStr s) = (s \<noteq> [])"
| "truthy (JArr _) = True"
| "truthy (JObj _) = True"

definition js_opt_str :: "string option \<Rightarrow> js_val" where
  "js_opt_str a = (case a of None \<Rightarrow> JUndefined | Some s \<Rightarrow> JStr s)"

text \<open>
  A thrown value: an \<^verbatim>\<open>Error\<close> with its name, message and stack. \<^verbatim>\<open>String(e)\<close> is
  \<^verbatim>\<open>Error.prototype.toString\<close>.
\<close>

datatype js_error = JsError (err_name: string) (err_message: string) (err_stack: string)

definition error_to_string :: "js_error \<Rightarrow> string" where
  "error_to_string e =
     (if err_name e = [] then err_message e
      else if err_message e = [] then err_name e
      else err_name e @ '': '' @ err_message e)"

section \<open>URL and parameter parser (dump.ts, parseTripUrl)\<close>

text \<open>
  \<^verbatim>\<open>new URL(s)\<close> is Node's WHATWG parser. The model covers absolute URLs
  \<open>scheme://[user@]host[:port][/path][?query][#fragment]\<close>: it gives the host name in
  lower case and the query, and fails (the source throws \<^verbatim>\<open>TypeError: Invalid URL\<close>) when
  there is no \<open>://\<close> or the host is empty. \<^verbatim>\<open>searchParams\<close> splits the query at \<open>&\<close> and at
  the first \<open>=\<close>, takes \<open>+\<close> as a space and decodes \<open>%XX\<close>.
\<close>

fun break_on :: "string \<Rightarrow> string \<Rightarrow> (string \<times> string) option" where
  "break_on p [] = (if p = [] then Some ([], []) else None)"
| "break_on p (c # cs) =
     (if starts_with p (c # cs) then Some ([], drop (length p) (c # cs))
      else map_option (\<lambda>(a, b). (c # a, b)) (break_on p cs))"

definition hex_val :: "char \<Rightarrow> nat option" where
  "hex_val c = map_of (zip ''0123456789abcdefABCDEF''
                          ([0 ..< 16] @ [10 ..< 16])) c"

fun pct_decode :: "string \<Rightarrow> string" where
  "pct_decode [] = []"
| "pct_decode [c] = [c]"
| "pct_decode [c, d] = [c, d]"
| "pct_decode (c # a # b # cs) =
     (if c = CHR ''%'' \<and> hex_val a \<noteq> None \<and> hex_val b \<noteq> None
      then char_of (16 * the (hex_val a) + the (hex_val b)) # pct_decode cs
      else c # pct_decode (a # b # cs))"

definition form_decode :: "string \<Rightarrow> string" where
  "form_decode s = pct_decode (map (\<lambda>c. if c = CHR ''+'' then CHR '' '' else c) s)"

definition search_params :: "string \<Rightarrow> (string \<times> string) list" where
  "search_params q =
     map (\<lambda>kv. case break_on ''='' kv of
                  None \<Rightarrow> (form_decode kv, [])
                | Some (k, v) \<Rightarrow> (form_decode k, form_decode v))
         (filter (\<lambda>kv. kv \<noteq> []) (split_on CHR ''&'' q))"

text \<open>\<^verbatim>\<open>searchParams.get(k)\<close>: the first value of the name, or \<^verbatim>\<open>null\<close>\<close>

definition sp_get :: "(string \<times> string) list \<Rightarrow> string \<Rightarrow> string option" where
  "sp_get ps k = map_of ps k"

record url_parts =
  url_hostname :: string
  url_search :: "(string \<times> string) list"

definition parse_url :: "string \<Rightarrow> url_parts option" where
  "parse_url s =
     (case break_on ''://'' s of
        None \<Rightarrow> None
      | Some (scheme, rest) \<Rightarrow>
          let no_frag = takeWhile (\<lambda>c. c \<noteq> CHR ''#'') rest;
              authority = takeWhile (\<lambda>c. c \<noteq> CHR ''/'' \<and> c \<noteq> CHR ''?'') no_frag;
              after_auth = drop (length authority) no_frag;
              host_port = (case break_on ''@'' authority of
                             None \<Rightarrow> authority | Some (u, h) \<Rightarrow> h);
              host = toLowerCase (takeWhile (\<lambda>c. c \<noteq> CHR '':'') host_port);
              query = (case break_on ''?'' after_auth of None \<Rightarrow> [] | Some (p, q) \<Rightarrow> q)
          in if scheme = [] \<or> host = [] then None
             else Some \<lparr>url_hostname = host, url_search = search_params query\<rparr>)"

text \<open>
  \<^verbatim>\<open>FlightSearchParams\<close> (lines 26-38). \<open>cls\<close> is the field \<^verbatim>\<open>class\<close> and \<open>localeCode\<close> the field \<^verbatim>\<open>locale\<close>; \<open>quantity\<close> is a
  number, \<open>None\<close> when \<^verbatim>\<open>parseInt\<close> gave \<^verbatim>\<open>NaN\<close>; an optional field that is \<^verbatim>\<open>undefined\<close>
  is \<open>None\<close>.
\<close>

record FlightSearchParams =
  dcity :: string
  acity :: string
  ddate :: string
  rdate :: "string option"
  triptype :: string
  cls :: string
  quantity :: "int option"
  localeCode :: string
  curr :: string
  dairport :: "string option"
  aairport :: "string option"

record ParsedUrlData =
  hostname :: string
  region :: string
  params :: FlightSearchParams

definition parseTripUrl :: "string \<Rightarrow> js_error + ParsedUrlData" where
  "parseTripUrl urlString =
     (case parse_url urlString of
        None \<Rightarrow> Inl (JsError ''TypeError'' ''Invalid URL'' [])
      | Some url \<Rightarrow>
          let host = url_hostname url;
              get = sp_get (url_search url);
              reg = or_str (hd (split_on CHR ''.'' host)) ''id''
          in Inr \<lparr>hostname = host, region = reg,
                  params = \<lparr>
                    dcity = or_opt (get ''dcity'') [],
                    acity = or_opt (get ''acity'') [],
                    ddate = or_opt (get ''ddate'') [],
                    rdate = or_undefined (get ''rdate''),
                    triptype = or_opt (get ''triptype'') ''rt'',
                    cls = or_opt (get ''class'') ''y'',
                    quantity = parseInt10 (or_opt (get ''quantity'') ''1''),
                    localeCode = or_opt (get ''locale'') (''en-'' @ toUpperCase reg),
                    curr = or_opt (get ''curr'') (if reg = ''id'' then ''IDR'' else ''USD''),
                    dairport = or_undefined (get ''dairport''),
                    aairport = or_undefined (get ''aairport'')\<rparr>\<rparr>)"

section \<open>Session state and the search payload (dump.ts, buildFlightSearchPayload)\<close>

text \<open>
  The \<^verbatim>\<open>cookies\<close> object (\<^verbatim>\<open>Record<string, any>\<close>) as far as the functions modelled here
  read it. \<^verbatim>\<open>_combined\<close> holds the cookie's string value when it comes from a response
  (line 248, line 2965) and the object built by \<^verbatim>\<open>generateCombinedCookie\<close> when the
  initial flow makes one (line 2924); it is absent (\<open>None\<close>) otherwise. The other entries
  (tracking cookies, \<^verbatim>\<open>headers\<close>, \<^verbatim>\<open>allCookies\<close>, \<^verbatim>\<open>cityInfoMap\<close>) are left out.
\<close>

record combined_cookie =
  cc_transactionId :: string
  cc_raw :: string
  cc_encoded :: string
  cc_cookieHeader :: string

datatype combined_val = CombinedString string | CombinedObject combined_cookie

record cookies =
  GUID :: "string option"
  UBT_VID :: "string option"
  combined :: "combined_val option"
  transactionId :: "string option"
  pageId :: "string option"

text \<open>
  A \<^verbatim>\<open>Date\<close>: the local-time fields the source reads, and the result of
  \<^verbatim>\<open>toISOString()\<close>.
\<close>

record js_date =
  getFullYear :: nat
  getMonth :: nat
  getDate :: nat
  getHours :: nat
  getMinutes :: nat
  getSeconds :: nat
  getMilliseconds :: nat
  toISOString :: string

definition pad :: "nat \<Rightarrow> nat \<Rightarrow> string" where
  "pad n width = padStart width CHR ''0'' (show_nat n)"

text \<open>\<^verbatim>\<open>generateFltAppSessionTransactionId\<close> (lines 309-325)\<close>

definition generateFltAppSessionTransactionId :: "js_date \<Rightarrow> string" where
  "generateFltAppSessionTransactionId date =
     ''1-mf-'' @ show_nat (getFullYear date) @ pad (getMonth date + 1) 2 @ pad (getDate date) 2
       @ pad (getHours date) 2 @ pad (getMinutes date) 2 @ pad (getSeconds date) 2
       @ pad (getMilliseconds date) 3 @ ''-WEB''"

definition str_truthy :: "string option \<Rightarrow> bool" where
  "str_truthy a = (case a of None \<Rightarrow> False | Some s \<Rightarrow> s \<noteq> [])"

text \<open>Lines 528-529, and the names lines 427 and 485 give to the same codes.\<close>

definition tripType_of :: "FlightSearchParams \<Rightarrow> int" where
  "tripType_of p = (if toLowerCase (triptype p) = ''rt'' then 2 else 1)"

definition grade_of :: "FlightSearchParams \<Rightarrow> int" where
  "grade_of p = (if cls p = ''y'' then 1 else if cls p = ''c'' then 4
                 else if cls p = ''f'' then 8 else 1)"

definition flightWayType_of :: "FlightSearchParams \<Rightarrow> string" where
  "flightWayType_of p =
     (if tripType_of p = 2 then ''RT'' else if tripType_of p = 1 then ''OW'' else ''MT'')"

definition cabinClass_of :: "FlightSearchParams \<Rightarrow> string" where
  "cabinClass_of p = (if cls p = ''y'' then ''Economy'' else if cls p = ''c'' then ''Business''
                      else if cls p = ''f'' then ''First'' else ''Economy'')"

text \<open>Lines 531-553: the outbound leg, and the return leg of a round trip with a return date.\<close>

definition journeyInfoTypes_of :: "FlightSearchParams \<Rightarrow> js_val list" where
  "journeyInfoTypes_of p =
     JObj [(''journeyNo'', JNum 1),
           (''departDate'', JStr (ddate p)),
           (''departCode'', JStr (if str_truthy (dairport p) then [] else toUpperCase (dcity p))),
           (''arriveCode'', JStr (if str_truthy (aairport p) then [] else toUpperCase (acity p))),
           (''departAirport'',
              JStr (if str_truthy (dairport p) then toUpperCase (the (dairport p)) else [])),
           (''arriveAirport'',
              JStr (if str_truthy (aairport p) then toUpperCase (the (aairport p)) else []))]
     # (if str_truthy (rdate p) \<and> tripType_of p = 2
        then [JObj [(''journeyNo'', JNum 2),
                    (''departDate'', JStr (the (rdate p))),
                    (''departCode'',
                       JStr (if str_truthy (aairport p) then [] else toUpperCase (acity p))),
                    (''arriveCode'',
                       JStr (if str_truthy (dairport p) then [] else toUpperCase (dcity p))),
                    (''departAirport'',
                       JStr (if str_truthy (aairport p) then toUpperCase (the (aairport p))
                             else [])),
                    (''arriveAirport'',
                       JStr (if str_truthy (dairport p) then toUpperCase (the (dairport p))
                             else []))]]
        else [])"

definition ext :: "string \<Rightarrow> string \<Rightarrow> js_val" where
  "ext n v = JObj [(''name'', JStr n), (''value'', JStr v)]"

definition ext_no_value :: "string \<Rightarrow> js_val" where
  "ext_no_value n = JObj [(''name'', JStr n)]"

text \<open>
  \<^verbatim>\<open>buildFlightSearchPayload\<close> (lines 522-637). Line 558 reads
  \<^verbatim>\<open>cookies._combined.transactionId\<close>: with \<^verbatim>\<open>_combined\<close> absent that is a property read
  on \<^verbatim>\<open>undefined\<close>, a \<^verbatim>\<open>TypeError\<close>; on a string it is \<^verbatim>\<open>undefined\<close>, and the
  generated id is used.
\<close>

definition combined_type_error :: js_error where
  "combined_type_error =
     JsError ''TypeError''
       (''Cannot read properties of undefined (reading '' @ [CHR 0x27] @ ''transactionId''
          @ [CHR 0x27] @ '')'') []"

definition buildFlightSearchPayload ::
  "FlightSearchParams \<Rightarrow> cookies \<Rightarrow> string \<Rightarrow> string option \<Rightarrow> js_date \<Rightarrow> js_error + js_val"
where
  "buildFlightSearchPayload p c fltBatchId productId now =
     (case combined c of
        None \<Rightarrow>
Inl combined_type_error
      | Some comb \<Rightarrow>
          let timestamp = replace_first ''Z'' ''+00:00'' (toISOString now);
              fltAppSessionTransactionId =
                or_str (case comb of CombinedString s \<Rightarrow> []
                                   | CombinedObject obj \<Rightarrow> cc_transactionId obj)
                       (generateFltAppSessionTransactionId now);
              loc = or_str (localeCode p) ''en-ID''
          in Inr (JObj [
            (''mode'', JNum 0),
            (''searchCriteria'', JObj [
               (''grade'', JNum 3),
               (''realGrade'', JNum (grade_of p)),
               (''tripType'', JNum (tripType_of p)),
               (''journeyNo'', JNum 1),
               (''passengerInfoType'', JObj [
                  (''adultCount'', JNum (case quantity p of None \<Rightarrow> 1
                                          | Some n \<Rightarrow> if n = 0 then 1 else n)),
                  (''childCount'', JNum 0),
                  (''infantCount'', JNum 0)]),
               (''journeyInfoTypes'', JArr (journeyInfoTypes_of p)),
               (''policyId'', JNull),
               (''productId'', js_opt_str (or_undefined productId))]),
            (''sortInfoType'', JObj [
               (''direction'', JBool True),
               (''orderBy'', JStr ''Direct''),
               (''topList'', JArr [])]),
            (''tagList'', JArr []),
            (''flagList'', JArr [JStr ''NEED_RESET_SORT'', JStr ''FullDataCache'']),
            (''filterType'', JObj [
               (''filterFlagTypes'', JArr []),
               (''queryItemSettings'', JArr []),
               (''studentsSelectedStatus'', JBool True)]),
            (''abtList'', JArr [
               JObj [(''abCode'', JStr ''250811_IBU_wjrankol''), (''abVersion'', JStr ''A'')],
               JObj [(''abCode'', JStr ''250806_IBU_FiltersOpt''), (''abVersion'', JStr ''A'')],
               JObj [(''abCode'', JStr ''250812_IBU_FiltersOp2''), (''abVersion'', JStr ''A'')],
               JObj [(''abCode'', JStr ''251023_IBU_pricetool''), (''abVersion'', JStr ''C'')]]),
            (''head'', JObj [
               (''cid'', JStr (or_opt (GUID c) [])),
               (''ctok'', JStr []),
               (''cver'', JStr ''3''),
               (''lang'', JStr ''01''),
               (''sid'', JStr ''8888''),
               (''syscode'', JStr ''40''),
               (''auth'', JStr []),
               (''xsid'', JStr []),
               (''extension'', JArr [
                  ext ''source'' ''ONLINE'',
                  ext ''sotpGroup'' ''Trip'',
                  ext ''sotpLocale'' loc,
                  ext ''sotpCurrency'' (or_str (curr p) ''IDR''),
                  ext ''allianceID'' ''0'',
                  ext ''sid'' ''0'',
                  ext ''ouid'' [],
                  ext_no_value ''uuid'',
                  ext ''useDistributionType'' ''1'',
                  ext ''flt_app_session_transactionId'' fltAppSessionTransactionId,
                  ext ''vid'' (or_opt (UBT_VID c) []),
                  ext ''pvid'' ''1'',
                  ext ''Flt_SessionId'' ''1'',
                  ext_no_value ''channel'',
                  ext ''x-ua'' ''v=3_os=ONLINE_osv=10.15.7'',
                  ext ''PageId'' (or_opt (pageId c) ''10320667452''),
                  ext ''clientTime'' timestamp,
                  ext ''LowPriceSource'' ''searchForm'',
                  ext ''Flt_BatchId'' fltBatchId,
                  ext ''BlockTokenTimeout'' ''0'',
                  ext ''full_link_time_scene'' ''pure_list_page'',
                  ext ''xproduct'' ''baggage'',
                  ext ''units'' ''METRIC'',
                  ext ''sotpUnit'' ''METRIC'']),
               (''Locale'', JStr loc),
               (''Language'', JStr (hd (split_on CHR ''-'' loc))),
               (''Currency'', JStr (or_str (curr p) ''IDR'')),
               (''ClientID'', JStr []),
               (''appid'', JStr ''700020'')])]))"

text \<open>
  Reading an extension of a payload's \<^verbatim>\<open>head.extension\<close> array by name, as lines 435-442
  do.
\<close>

definition extension_value :: "js_val \<Rightarrow> string \<Rightarrow> js_val" where
  "extension_value payload n =
     (case get_prop (get_prop payload ''head'') ''extension'' of
        JArr exts \<Rightarrow>
          (case filter (\<lambda>e. get_prop e ''name'' = JStr n) exts of
             [] \<Rightarrow> JUndefined
           | e # _ \<Rightarrow> get_prop e ''value'')
      | _ \<Rightarrow> JUndefined)"

section \<open>Random identifiers and the telemetry payload (dump.ts, buildUbtPayload)\<close>

text \<open>
  \<^verbatim>\<open>Math.random()\<close> returns a double in \<open>[0, 1)\<close>; a draw is given here by its numerator
  \<open>u\<close> over \<open>2 ^ 53\<close>. \<open>random_int u n\<close> is \<^verbatim>\<open>Math.floor(Math.random() * n)\<close> (and
  \<^verbatim>\<open>(Math.random() * n) | 0\<close>) for that draw. Every call site of \<^verbatim>\<open>Math.random()\<close> gets its
  own draws as inputs.
\<close>

definition random_int :: "nat \<Rightarrow> nat \<Rightarrow> nat" where
  "random_int u n = (u * n) div 2 ^ 53"

text \<open>
  \<^verbatim>\<open>generateUUID\<close> (lines 691-697): every \<open>x\<close> and \<open>y\<close> of the template is replaced, from
  left to right, using one fresh draw each; \<open>rnd k\<close> is the draw of the \<open>k\<close>-th call.
\<close>

fun uuid_chars :: "string \<Rightarrow> (nat \<Rightarrow> nat) \<Rightarrow> nat \<Rightarrow> string" where
  "uuid_chars [] rnd k = []"
| "uuid_chars (c # cs) rnd k =
     (if c = CHR ''x'' then digit_char (random_int (rnd k) 16) # uuid_chars cs rnd (k + 1)
      else if c = CHR ''y''
      then digit_char ((random_int (rnd k) 16 AND 3) OR 8) # uuid_chars cs rnd (k + 1)
      else c # uuid_chars cs rnd k)"

definition generateUUID :: "(nat \<Rightarrow> nat) \<Rightarrow> string" where
  "generateUUID rnd = uuid_chars ''xxxxxxxx-xxxx-4xxx-yxxx-xxxxxxxxxxxx'' rnd 0"

text \<open>
  One tuple \<^verbatim>\<open>[sequence, timestamp, kind, tag, body]\<close> of \<^verbatim>\<open>ubtList\<close>. Of the body the
  model keeps its \<^verbatim>\<open>name\<close> or \<^verbatim>\<open>key\<close> and the \<^verbatim>\<open>Flt_BatchId\<close> values it embeds; the
  metric values and the other fields of the bodies are left out.
\<close>

record ubt_item =
  u_seq :: int
  u_ts :: int
  u_kind :: string
  u_tag :: "string option"
  u_label :: string
  u_batch :: "string list"

type_synonym ubt_row = "int \<times> string \<times> string option \<times> string \<times> string list"

text \<open>
  The elements of an array literal are evaluated in order, and each takes its sequence
  number with \<^verbatim>\<open>sequenceCounter++\<close>.
\<close>

fun number_items :: "int \<Rightarrow> ubt_row list \<Rightarrow> ubt_item list" where
  "number_items c [] = []"
| "number_items c ((t, k, g, l, b) # rows) =
     \<lparr>u_seq = c, u_ts = t, u_kind = k, u_tag = g, u_label = l, u_batch = b\<rparr>
     # number_items (c + 1) rows"

text \<open>
  The draws of \<^verbatim>\<open>buildUbtPayload\<close> that the model uses: \<open>r_base\<close> (line 894), \<open>r_uuid\<close>
  (the calls inside \<^verbatim>\<open>generateUUID()\<close> at line 898) and \<open>r_ts k\<close>, the draw in the
  timestamp of the \<open>k\<close>-th entry of the second part of the list.
\<close>

record ubt_random =
  r_base :: nat
  r_uuid :: "nat \<Rightarrow> nat"
  r_ts :: "nat \<Rightarrow> nat"

definition ts_resource :: "int \<Rightarrow> nat \<Rightarrow> int" where
  "ts_resource sendTs u = sendTs - int (random_int u 250000) - 100000"

definition ts_search :: "int \<Rightarrow> nat \<Rightarrow> int" where
  "ts_search sendTs u = sendTs - int (random_int u 5000) - 200000"

text \<open>Lines 990-1231: sequence numbers from 34, timestamps relative to \<^verbatim>\<open>baseTimestamp\<close>.\<close>

definition ubtListItemsPart1 :: "int \<Rightarrow> ubt_row list" where
  "ubtListItemsPart1 currentTimestamp =
     [(currentTimestamp, ''metric'', None, ''JS.Lizard.DomReady'', []),
      (currentTimestamp, ''trace'', Some ''tiled_tl'', ''270362'', []),
      (currentTimestamp + 27, ''metric'', None, ''webcore_fetch_cSign'', []),
      (currentTimestamp + 30, ''metric'', None, ''webcore_fetch_cSign'', []),
      (currentTimestamp + 33, ''metric'', None, ''webcore_fetch_cSign'', []),
      (currentTimestamp + 38, ''dev_trace'', Some ''tiled_tl'',
         ''ibu_flt_pc_dev_nationality_init'', []),
      (currentTimestamp + 68, ''metric'', None, ''web_page_perf_fcp'', [])]
     @ map (\<lambda>i. (currentTimestamp + 69 + i, ''metric'', None, ''web_resource_perf'', []))
         [0, 1, 2]
     @ [(currentTimestamp + 70, ''metric'', None, ''web_resource_perf'', [])]"

text \<open>Lines 1236-2658: sequence numbers from 151, timestamps relative to \<^verbatim>\<open>sendTs\<close>.\<close>

definition ubtListItemsPart2 :: "int \<Rightarrow> (nat \<Rightarrow> nat) \<Rightarrow> string \<Rightarrow> ubt_row list" where
  "ubtListItemsPart2 sendTs d fltBatchId =
     [(ts_resource sendTs (d 0), ''metric'', None, ''bbz_perf_resource_timing'', []),
      (ts_resource sendTs (d 1), ''metric'', None, ''bbz_perf_resource_timing'', []),
      (ts_search sendTs (d 2), ''metric'', None,
         ''ibu_flt_pc_dev_metric_sse_each_search_time'', [fltBatchId]),
      (ts_search sendTs (d 3), ''metric'', None,
         ''ibu_flt_pc_dev_metric_sse_performance'', [fltBatchId]),
      (ts_search sendTs (d 4), ''trace'', Some ''tiled_tl'', ''O_FLT_Request_Service_State'', []),
      (ts_search sendTs (d 5), ''dev_trace'', Some ''tiled_tl'', ''ibu_flt_online_jserror_log'', []),
      (ts_search sendTs (d 6), ''trace'', Some ''tiled_tl'', ''ibu_flt_online_tolist_basic'', []),
      (ts_search sendTs (d 7), ''trace'', Some ''tiled_tl'',
         ''ibu_flt_online_listsearchbox_action'', []),
      (ts_search sendTs (d 8), ''trace'', Some ''tiled_tl'', ''all_flt_list_page_query'', []),
      (ts_search sendTs (d 9), ''metric'', None, ''ibu_flt_pc_dev_metric_sdt_performance'', []),
      (ts_search sendTs (d 10), ''dev_trace'', Some ''tiled_tl'', ''ibu_flt_pc_dev_http_headers'', []),
      (ts_search sendTs (d 11), ''dev_trace'', Some ''tiled_tl'', ''ibu_flt_pc_dev_http_headers'', []),
      (ts_search sendTs (d 12), ''metric'', None, ''webcore_fetch_cSign'', []),
      (ts_search sendTs (d 13), ''metric'', None, ''webcore_fetch_cSign'', []),
      (ts_search sendTs (d 14), ''metric'', None, ''web_resource_perf'', []),
      (ts_search sendTs (d 15), ''dev_trace'', Some ''tiled_tl'', ''o_flt_coffeebean_dev'', []),
      (ts_search sendTs (d 16), ''dev_trace'', Some ''tiled_tl'', ''o_flt_coffeebean_dev'', []),
      (ts_search sendTs (d 17), ''dev_trace'', Some ''tiled_tl'', ''o_flt_coffeebean_dev'', []),
      (ts_search sendTs (d 18), ''dev_trace'', Some ''tiled_tl'',
         ''o_flt_coffeebean_window_size'', []),
      (ts_search sendTs (d 19), ''metric'', None,
         ''ibu_flt_pc_dev_metric_h5gateway_performance_all'', []),
      (ts_search sendTs (d 20), ''metric'', None,
         ''ibu_flt_pc_dev_metric_h5gateway_performance_all'', []),
      (ts_search sendTs (d 21), ''metric'', None,
         ''ibu_flt_pc_dev_metric_h5gateway_performance_all'', []),
      (ts_search sendTs (d 22), ''dev_trace'', Some ''tiled_tl'', ''ibu_flt_pc_dev_http_headers'', []),
      (ts_search sendTs (d 23), ''metric'', None, ''webcore_fetch_cSign'', []),
      (ts_search sendTs (d 24), ''dev_trace'', Some ''tiled_tl'', ''ibu_flt_pc_dev_http_headers'', []),
      (ts_search sendTs (d 25), ''metric'', None, ''webcore_fetch_cSign'', []),
      (ts_search sendTs (d 26), ''dev_trace'', Some ''tiled_tl'', ''ibu_ajax_devtrace'', []),
      (ts_search sendTs (d 27), ''metric'', None, ''ibu_ajax_perf'', []),
      (ts_search sendTs (d 28), ''metric'', None, ''JS.Lizard.AjaxReady'', []),
      (ts_search sendTs (d 29), ''metric'', None, ''o_web_http_success'', []),
      (ts_search sendTs (d 30), ''metric'', None, ''web_ajax_perf'', []),
      (ts_search sendTs (d 31), ''dev_trace'', Some ''tiled_tl'', ''webcore_sse_info'', []),
      (ts_search sendTs (d 32), ''dev_trace'', Some ''tiled_tl'', ''webcore_sse_info'', []),
      (ts_search sendTs (d 33), ''metric'', None, ''o_web_http_fail'', [fltBatchId]),
      (ts_search sendTs (d 34), ''metric'', None, ''web_ajax_perf'', []),
      (ts_search sendTs (d 35), ''metric'', None, ''o_web_http_success'', []),
      (ts_search sendTs (d 36), ''metric'', None, ''web_ajax_perf'', [fltBatchId])]"

record ubt_payload =
  ubtList :: "ubt_item list"
  sendTs :: int

text \<open>
  \<^verbatim>\<open>buildUbtPayload\<close> (lines 844-2751), its \<^verbatim>\<open>ubtList\<close> and \<^verbatim>\<open>sendTs\<close>. The function
  has no batch id among its parameters: line 898 makes its own with \<^verbatim>\<open>generateUUID()\<close>.
  The parameters \<^verbatim>\<open>params\<close>, \<^verbatim>\<open>cookies\<close>, \<^verbatim>\<open>url\<close>, \<^verbatim>\<open>parsed\<close> and
  \<^verbatim>\<open>flightSearchToken\<close> only reach the parts of the bodies that are left out.
\<close>

definition buildUbtPayload ::
  "FlightSearchParams \<Rightarrow> cookies \<Rightarrow> string \<Rightarrow> int \<Rightarrow> ParsedUrlData \<Rightarrow> string
     \<Rightarrow> ubt_random \<Rightarrow> ubt_payload"
where
  "buildUbtPayload p c url sendTs0 parsed flightSearchToken rnd =
     (let baseTimestamp = sendTs0 - int (random_int (r_base rnd) 30000) - 100000;
          fltBatchId = generateUUID (r_uuid rnd);
          part1 = number_items 34 (ubtListItemsPart1 baseTimestamp);
          part2 = number_items 151 (ubtListItemsPart2 sendTs0 (r_ts rnd) fltBatchId)
      in \<lparr>ubtList = part1 @ part2, sendTs = sendTs0\<rparr>)"

section \<open>Responses, cookies from the root visit, and the response decoder\<close>

text \<open>
  A response of the transport (\<^verbatim>\<open>session.get\<close>, \<^verbatim>\<open>session.post\<close>): status, body, headers
  and the cookies it set, each as name and value. A call of the transport either resolves
  with a response or rejects with an error: \<open>js_error + http_response\<close>.
\<close>

record http_response =
  statusCode :: int
  body :: string
  resp_headers :: "(string \<times> string) list"
  resp_cookies :: "(string \<times> string) list"

text \<open>
  \<^verbatim>\<open>decodeURIComponent\<close>: \<open>%XX\<close> is decoded, and a \<open>%\<close> without two hexadecimal digits
  throws \<^verbatim>\<open>URIError\<close> (\<open>None\<close>).
\<close>

fun decodeURIComponent :: "string \<Rightarrow> string option" where
  "decodeURIComponent [] = Some []"
| "decodeURIComponent (c # cs) =
     (if c = CHR ''%''
      then (case cs of
              a # b # rest \<Rightarrow>
                (if hex_val a \<noteq> None \<and> hex_val b \<noteq> None
                 then map_option (\<lambda>r. char_of (16 * the (hex_val a) + the (hex_val b)) # r)
                        (decodeURIComponent rest)
                 else None)
            | _ \<Rightarrow> None)
      else map_option (\<lambda>r. c # r) (decodeURIComponent cs))"

text \<open>\<^verbatim>\<open>new URLSearchParams(s)\<close>: a leading \<open>?\<close> is dropped.\<close>

definition url_search_params :: "string \<Rightarrow> (string \<times> string) list" where
  "url_search_params s = search_params (if starts_with ''?'' s then tl s else s)"

definition normalize_marker :: "string \<Rightarrow> string" where
  "normalize_marker s = (if js_includes ''nodejs'' s then replace_all ''nodejs'' ''WEB'' s else s)"

text \<open>
  \<^verbatim>\<open>getCookiesFromHostname\<close> (lines 202-300), from the response of the root visit on: the
  entries \<^verbatim>\<open>GUID\<close>, \<^verbatim>\<open>UBT_VID\<close>, \<^verbatim>\<open>_combined\<close>, \<^verbatim>\<open>transactionId\<close> and \<^verbatim>\<open>pageId\<close>.
  \<^verbatim>\<open>_combined\<close> is set only when the response carries that cookie (line 239).
\<close>

definition getCookiesFromHostname :: "http_response \<Rightarrow> cookies" where
  "getCookiesFromHostname response =
     (let jar = resp_cookies response;
          c0 = \<lparr>GUID = map_of jar ''GUID'', UBT_VID = map_of jar ''UBT_VID'',
                combined = None, transactionId = None, pageId = None\<rparr>
      in case map_of jar ''_combined'' of
           None \<Rightarrow> c0
         | Some v \<Rightarrow>
             let comb = normalize_marker v;
                 c1 = c0\<lparr>combined := Some (CombinedString comb)\<rparr>
             in case decodeURIComponent comb of
                  None \<Rightarrow> c1
                | Some decoded \<Rightarrow>
                    let ps = url_search_params decoded;
                        tid = or_opt (sp_get ps ''transactionId'') []
                    in c1\<lparr>transactionId := Some (normalize_marker tid),
                          pageId := Some (or_opt (sp_get ps ''pageId'')
                                            (or_opt (sp_get ps ''initPageId'') []))\<rparr>)"

text \<open>
  \<^verbatim>\<open>encodeURIComponent\<close> on ASCII text: letters, digits and \<open>-_.!~*'()\<close> stay, every
  other character becomes \<open>%XX\<close>.
\<close>

definition upper_hex :: "nat \<Rightarrow> char" where
  "upper_hex d = ''0123456789ABCDEF'' ! (d mod 16)"

definition unreserved :: "char \<Rightarrow> bool" where
  "unreserved c \<longleftrightarrow>
     c \<in> set (''ABCDEFGHIJKLMNOPQRSTUVWXYZabcdefghijklmnopqrstuvwxyz0123456789-_.!~*()''
              @ [CHR 0x27])"

definition encodeURIComponent :: "string \<Rightarrow> string" where
  "encodeURIComponent s =
     concat (map (\<lambda>c. if unreserved c then [c]
                       else [CHR ''%'', upper_hex (of_char c div 16), upper_hex (of_char c mod 16)])
                 s)"

text \<open>\<^verbatim>\<open>generateCombinedCookie\<close> (lines 162-197), called without options.\<close>

definition generateCombinedCookie :: "js_date \<Rightarrow> combined_cookie" where
  "generateCombinedCookie now =
     (let pid = ''10320667452'';
          ts = show_nat (getFullYear now) @ pad (getMonth now + 1) 2 @ pad (getDate now) 2
               @ pad (getHours now) 2 @ pad (getMinutes now) 2 @ pad (getSeconds now) 2
               @ pad (getMilliseconds now) 3;
          tid = ''1-mf-'' @ ts @ ''-WEB'';
          raw = ''transactionId='' @ tid @ ''&pageId='' @ pid @ ''&initPageId='' @ pid
                @ ''&usedistributionchannels='' @ ''False''
      in \<lparr>cc_transactionId = tid, cc_raw = raw, cc_encoded = encodeURIComponent raw,
           cc_cookieHeader = ''_combined='' @ encodeURIComponent raw\<rparr>)"

text \<open>
  Lines 2922-2967 of the initial search: \<^verbatim>\<open>finalCookies\<close> is \<^verbatim>\<open>rootCookies\<close> with a
  synthesized \<^verbatim>\<open>_combined\<close>, replaced by the cookie of the visit of the search URL when
  that response carries one.
\<close>

definition finalCookies_of :: "cookies \<Rightarrow> http_response \<Rightarrow> js_date \<Rightarrow> cookies" where
  "finalCookies_of rootCookies targetResponse now =
     (let c0 = rootCookies\<lparr>combined := Some (CombinedObject (generateCombinedCookie now))\<rparr>
      in case map_of (resp_cookies targetResponse) ''_combined'' of
           None \<Rightarrow> c0
         | Some v \<Rightarrow>
             (case decodeURIComponent v of
                None \<Rightarrow> c0\<lparr>combined := Some (CombinedString (normalize_marker v))\<rparr>
              | Some decoded \<Rightarrow>
                  let ps = url_search_params decoded;
                      tid0 = sp_get ps ''transactionId'';
                      newPageId = or_undefined
                        (Some (or_opt (sp_get ps ''pageId'') (or_opt (sp_get ps ''initPageId'') [])));
                      marked = (str_truthy tid0 \<and> js_includes ''nodejs'' (the tid0));
                      newTransactionId =
                        (if marked then Some (replace_all ''nodejs'' ''WEB'' (the tid0)) else tid0);
                      comb = (if marked then replace_all ''nodejs'' ''WEB'' v else v);
                      c1 = (if str_truthy newTransactionId
                            then c0\<lparr>transactionId := newTransactionId\<rparr> else c0);
                      c2 = (if str_truthy newPageId then c1\<lparr>pageId := newPageId\<rparr> else c1)
                  in c2\<lparr>combined := Some (CombinedString comb)\<rparr>))"

text \<open>
  Lines 2979-2985 and 3129-3130 of the initial search: the batch id made by the handler goes
  into the search payload; the telemetry payload is built afterwards by
  \<^verbatim>\<open>buildUbtPayload\<close>, which is not given that id. \<open>h_uuid\<close> holds the draws of the
  handler's call of \<^verbatim>\<open>generateUUID()\<close>.
\<close>

record search_requests =
  rq_fltBatchId :: string
  rq_payload :: js_val
  rq_ubtPayload :: ubt_payload

definition build_search_requests ::
  "ParsedUrlData \<Rightarrow> cookies \<Rightarrow> string \<Rightarrow> js_date \<Rightarrow> int \<Rightarrow> string \<Rightarrow> (nat \<Rightarrow> nat)
     \<Rightarrow> ubt_random \<Rightarrow> js_error + search_requests"
where
  "build_search_requests parsed finalCookies url now sendTs0 flightSearchToken h_uuid rnd =
     (let fltBatchId = generateUUID h_uuid
      in case buildFlightSearchPayload (params parsed) finalCookies fltBatchId None now of
           Inl e \<Rightarrow> Inl e
         | Inr payload \<Rightarrow>
             Inr \<lparr>rq_fltBatchId = fltBatchId, rq_payload = payload,
                  rq_ubtPayload = buildUbtPayload (params parsed) finalCookies url sendTs0 parsed
                                    flightSearchToken rnd\<rparr>)"

text \<open>
  \<^verbatim>\<open>decodeBody\<close> (lines 663-689). The decompressors of \<^verbatim>\<open>zlib\<close> are the parameter
  \<open>unzip\<close>: \<open>unzip enc raw\<close> is the decompressed text, or \<open>None\<close> when \<^verbatim>\<open>zlib\<close> throws.
  Without a known encoding the body is returned as it is.
\<close>

definition decodeBody ::
  "(string \<Rightarrow> string \<Rightarrow> string option) \<Rightarrow> http_response \<Rightarrow> js_error + string" where
  "decodeBody unzip response =
     (let encoding = map_of (resp_headers response) ''content-encoding'';
          raw = body response
      in if raw = [] then Inr []
         else if encoding = Some ''gzip'' \<or> encoding = Some ''deflate'' \<or> encoding = Some ''br''
         then (case unzip (the encoding) raw of
                 None \<Rightarrow> Inl (JsError ''Error'' ''incorrect header check'' [])
               | Some s \<Rightarrow> Inr s)
         else Inr raw)"

text \<open>
  The text given to \<^verbatim>\<open>JSON.parse\<close> by each handler.
  \<^item> \<^verbatim>\<open>/api/flight-search\<close> (lines 3498-3504): the first line that starts with \<open>data:\<close>.
  \<^item> \<^verbatim>\<open>/api/flight-search-grpc\<close> (lines 4143-4161): the lines are trimmed, and the last one
    that starts with \<open>data:\<close> and is longer than 5 characters is taken.
  \<^item> \<^verbatim>\<open>/api/flight-search-sort\<close> (line 4389): the body as it is.
\<close>

definition dataLines_initial :: "string \<Rightarrow> string list" where
  "dataLines_initial responseBody =
     filter (starts_with ''data:'') (split_on CHR 0x0A responseBody)"

definition select_body_initial :: "string \<Rightarrow> string" where
  "select_body_initial responseBody =
     (if js_includes ''data:'' responseBody
      then (case dataLines_initial responseBody of
              [] \<Rightarrow> responseBody
            | l # ls \<Rightarrow> trim (replace_first ''data:'' [] l))
      else responseBody)"

definition dataLines_grpc :: "string \<Rightarrow> string list" where
  "dataLines_grpc responseBody =
     filter (\<lambda>l. starts_with ''data:'' l \<and> length l > 5)
            (map trim (split_on CHR 0x0A responseBody))"

text \<open>\<^verbatim>\<open>l.replace(/^data:\s*/, '')\<close>\<close>

definition strip_data_prefix :: "string \<Rightarrow> string" where
  "strip_data_prefix l =
     (if starts_with ''data:'' l then dropWhile is_space (drop 5 l) else l)"

definition select_body_grpc :: "string \<Rightarrow> string" where
  "select_body_grpc responseBody =
     (if js_includes ''data:'' responseBody
      then (case dataLines_grpc responseBody of
              [] \<Rightarrow> responseBody
            | l # ls \<Rightarrow> trim (strip_data_prefix (last (l # ls))))
      else responseBody)"

definition select_body_sort :: "string \<Rightarrow> string" where
  "select_body_sort responseBody = responseBody"

section \<open>The handlers: joining the concurrent calls and assembling the result\<close>

text \<open>What a handler sends back: the HTTP status and the object given to \<^verbatim>\<open>res.json\<close>.\<close>

record api_response =
  http_status :: int
  json_body :: js_val

definition params_js :: "FlightSearchParams \<Rightarrow> js_val" where
  "params_js p =
     JObj [(''dcity'', JStr (dcity p)), (''acity'', JStr (acity p)), (''ddate'', JStr (ddate p)),
           (''rdate'', js_opt_str (rdate p)), (''triptype'', JStr (triptype p)),
           (''class'', JStr (cls p)),
           (''quantity'', case quantity p of None \<Rightarrow> JUndefined | Some n \<Rightarrow> JNum n),
           (''locale'', JStr (localeCode p)), (''curr'', JStr (curr p)),
           (''dairport'', js_opt_str (dairport p)), (''aairport'', js_opt_str (aairport p))]"

definition metadata_js :: "ParsedUrlData \<Rightarrow> js_val" where
  "metadata_js parsed =
     JObj [(''hostname'', JStr (hostname parsed)), (''region'', JStr (region parsed)),
           (''params'', params_js (params parsed))]"

text \<open>
  The \<^verbatim>\<open>catch\<close> of a handler (lines 3593-3600): status 500. \<open>dev\<close> says whether
  \<^verbatim>\<open>NODE_ENV\<close> is \<open>development\<close>.
\<close>

definition failure_response :: "bool \<Rightarrow> js_error \<Rightarrow> api_response" where
  "failure_response dev e =
     \<lparr>http_status = 500,
      json_body = JObj [(''success'', JBool False),
                        (''error'', JStr (or_str (err_message e) ''Internal server error'')),
                        (''stack'', if dev then JStr (err_stack e) else JUndefined)]\<rparr>"

definition bad_request :: "string \<Rightarrow> api_response" where
  "bad_request msg = \<lparr>http_status = 400, json_body = JObj [(''error'', JStr msg)]\<rparr>"

text \<open>
  An element of the result of \<^verbatim>\<open>Promise.allSettled\<close>: fulfilled with the value
  \<^verbatim>\<open>{ type, response }\<close>, or rejected with the error the call threw.
\<close>

datatype settled = Fulfilled string http_response | Rejected js_error

definition settle :: "string \<Rightarrow> js_error + http_response \<Rightarrow> settled" where
  "settle ty outcome = (case outcome of Inl e \<Rightarrow> Rejected e | Inr r \<Rightarrow> Fulfilled ty r)"

text \<open>
  Lines 3137-3325: two calls are given to \<^verbatim>\<open>Promise.allSettled\<close>, the telemetry call and
  the main search call; the third one (\<open>clog\<close>) is commented out.
\<close>

definition concurrentCalls ::
  "js_error + http_response \<Rightarrow> js_error + http_response \<Rightarrow> settled list" where
  "concurrentCalls ubtCollect flightSearch =
     [settle ''ubtCollect'' ubtCollect, settle ''flightSearch'' flightSearch]"

record call_result =
  cr_name :: "string option"
  cr_success :: bool
  cr_statusCode :: "int option"
  cr_error :: "string option"

text \<open>
  Lines 3330-3359. The names are looked up by the index of the call in the array; the list
  of names still has the entry of the commented-out call.
\<close>

definition endpointNames :: "string list" where
  "endpointNames = [''UBT collect'', ''clog'', ''FlightListSearchSSE'']"

definition name_at :: "nat \<Rightarrow> string option" where
  "name_at index = (if index < length endpointNames then Some (endpointNames ! index) else None)"

text \<open>\<^verbatim>\<open>String(result.reason?.message || result.reason || 'Unknown error')\<close>\<close>

definition reason_text :: "js_error \<Rightarrow> string" where
  "reason_text e = (if err_message e \<noteq> [] then err_message e else error_to_string e)"

fun collect_results ::
  "nat \<Rightarrow> settled list \<Rightarrow> call_result list \<times> http_response option
     \<Rightarrow> call_result list \<times> http_response option" where
  "collect_results index [] acc = acc"
| "collect_results index (Fulfilled ty response # rest) (results, flightSearchResponse) =
     collect_results (index + 1) rest
       (results @ [\<lparr>cr_name = name_at index, cr_success = True,
                     cr_statusCode = (if ty = ''flightSearch'' \<or> ty = ''ubtCollect''
                                      then Some (statusCode response) else None),
                     cr_error = None\<rparr>],
        if ty = ''flightSearch'' then Some response else flightSearchResponse)"
| "collect_results index (Rejected e # rest) (results, flightSearchResponse) =
     collect_results (index + 1) rest
       (results @ [\<lparr>cr_name = name_at index, cr_success = False, cr_statusCode = None,
                     cr_error = Some (reason_text e)\<rparr>],
        flightSearchResponse)"

text \<open>Lines 3459-3467: without a response of the main search call the handler throws.\<close>

definition require_search_response ::
  "call_result list \<Rightarrow> http_response option \<Rightarrow> js_error + http_response" where
  "require_search_response results flightSearchResponse =
     (case flightSearchResponse of
        Some r \<Rightarrow> Inr r
      | None \<Rightarrow>
          (case find (\<lambda>r. cr_name r = Some ''FlightListSearchSSE'') results of
             Some r \<Rightarrow>
               if \<not> cr_success r
               then Inl (JsError ''Error''
                          (''FlightListSearchSSE failed: ''
                             @ (case cr_error r of None \<Rightarrow> ''undefined'' | Some m \<Rightarrow> m)) [])
               else Inl (JsError ''Error'' ''FlightListSearchSSE response not found'' [])
           | None \<Rightarrow> Inl (JsError ''Error'' ''FlightListSearchSSE response not found'' [])))"

text \<open>
  Lines 3489-3574: decoding the response of the main search call. \<open>parse\<close> is
  \<^verbatim>\<open>JSON.parse\<close> (\<open>None\<close> when it throws). The messages written to the console about the
  record count are the \<open>console_event\<close>s; they are all the handler does with the count.
  When decoding or parsing throws, the \<^verbatim>\<open>catch\<close> of line 3571 keeps the raw body.
\<close>

datatype console_event =
    ProductIdExtracted js_val
  | ProductIdNotFound
  | BlockedWarning
  | FoundRecords js_val
  | NoRecordCount

record decoded_search =
  flightData :: js_val
  productId :: js_val
  console :: "console_event list"

definition inspect_flightData :: "js_val \<Rightarrow> decoded_search" where
  "inspect_flightData fd =
     (let pid = get_prop (get_prop fd ''basicInfo'') ''productId'';
          rc = get_prop (get_prop fd ''basicInfo'') ''recordCount''
      in \<lparr>flightData = fd,
           productId = (if truthy pid then pid else JUndefined),
           console = [if truthy pid then ProductIdExtracted pid else ProductIdNotFound,
                      if rc = JNum 1 then BlockedWarning
                      else if truthy rc then FoundRecords rc else NoRecordCount]\<rparr>)"

definition decode_initial ::
  "(string \<Rightarrow> js_val option) \<Rightarrow> (string \<Rightarrow> string \<Rightarrow> string option) \<Rightarrow> http_response
     \<Rightarrow> decoded_search" where
  "decode_initial parse unzip response =
     (case decodeBody unzip response of
        Inl e \<Rightarrow> \<lparr>flightData = JStr (body response), productId = JUndefined, console = []\<rparr>
      | Inr responseBody \<Rightarrow>
          (case parse (select_body_initial responseBody) of
             None \<Rightarrow> \<lparr>flightData = JStr (body response), productId = JUndefined, console = []\<rparr>
           | Some fd \<Rightarrow> inspect_flightData fd))"

text \<open>
  Lines 4139-4192 of \<^verbatim>\<open>/api/flight-search-grpc\<close>: the body is not decompressed, and only
  the product id is looked at.
\<close>

definition decode_grpc :: "(string \<Rightarrow> js_val option) \<Rightarrow> http_response \<Rightarrow> decoded_search" where
  "decode_grpc parse response =
     (case parse (select_body_grpc (body response)) of
        None \<Rightarrow> \<lparr>flightData = JStr (body response), productId = JUndefined, console = []\<rparr>
      | Some fd \<Rightarrow>
          let pid = get_prop (get_prop fd ''basicInfo'') ''productId''
          in \<lparr>flightData = fd, productId = (if truthy pid then pid else JUndefined),
               console = (if truthy pid then [ProductIdExtracted pid] else [])\<rparr>)"

text \<open>Lines 3576-3591: the success result.\<close>

definition success_response ::
  "http_response \<Rightarrow> decoded_search \<Rightarrow> cookies \<Rightarrow> ParsedUrlData \<Rightarrow> api_response" where
  "success_response response d finalCookies parsed =
     \<lparr>http_status = 200,
      json_body = JObj [(''success'', JBool True),
                        (''statusCode'', JNum (statusCode response)),
                        (''data'', flightData d),
                        (''productId'', productId d),
                        (''cookies'', JObj [(''guid'', js_opt_str (GUID finalCookies)),
                                            (''transactionId'',
                                               js_opt_str (transactionId finalCookies)),
                                            (''pageId'', js_opt_str (pageId finalCookies))]),
                        (''metadata'', metadata_js parsed)]\<rparr>"

text \<open>
  The initial search from the join of the concurrent calls to the response (lines
  3137-3600). \<open>ubtCollect\<close> and \<open>flightSearch\<close> are the outcomes of the two calls. The
  fingerprint registration (lines 3387-3457) and the risk call (lines 3548-3570) run inside
  their own \<^verbatim>\<open>try\<close>/\<^verbatim>\<open>catch\<close> and change nothing the result reads; they are left out.
  The function returns the response and what was written to the console about the decoded
  data.
\<close>

definition finish_flight_search ::
  "(string \<Rightarrow> js_val option) \<Rightarrow> (string \<Rightarrow> string \<Rightarrow> string option) \<Rightarrow> bool
     \<Rightarrow> ParsedUrlData \<Rightarrow> cookies
     \<Rightarrow> js_error + http_response \<Rightarrow> js_error + http_response
     \<Rightarrow> api_response \<times> console_event list" where
  "finish_flight_search parse unzip dev parsed finalCookies ubtCollect flightSearch =
     (let (results, flightSearchResponse) =
            collect_results 0 (concurrentCalls ubtCollect flightSearch) ([], None)
      in case require_search_response results flightSearchResponse of
           Inl e \<Rightarrow> (failure_response dev e, [])
         | Inr response \<Rightarrow>
             let d = decode_initial parse unzip response
             in (success_response response d finalCookies parsed, console d))"

text \<open>
  A field of the result object, and the fields of the result whose value is \<^verbatim>\<open>true\<close>.
\<close>

definition result_field :: "api_response \<Rightarrow> string \<Rightarrow> js_val" where
  "result_field r k = get_prop (json_body r) k"

definition true_fields :: "api_response \<Rightarrow> string list" where
  "true_fields r =
     (case json_body r of
        JObj kvs \<Rightarrow> map fst (filter (\<lambda>kv. snd kv = JBool True) kvs)
      | _ \<Rightarrow> [])"

definition field_names :: "api_response \<Rightarrow> string list" where
  "field_names r = (case json_body r of JObj kvs \<Rightarrow> map fst kvs | _ \<Rightarrow> [])"

section \<open>The sort/refine handler (dump.ts, /api/flight-search-sort)\<close>

text \<open>
  The request body, the outcomes of the calls the handler makes, and the calls it issued.
  \<open>se_c_sign\<close> is the outcome of the signing oracle \<^verbatim>\<open>c_sign\<close>, which is called outside any
  \<^verbatim>\<open>try\<close>.
\<close>

record sort_request =
  sr_url :: "string option"
  sr_productId :: "string option"
  sr_sortType :: "string option"
  sr_direction :: "bool option"

record sort_env =
  se_root :: "js_error + http_response"
  se_c_sign :: "js_error + string"
  se_search :: "js_error + http_response"
  se_now :: js_date
  se_uuid :: "nat \<Rightarrow> nat"
  se_dev :: bool

datatype net_call = GetRoot | PostFlightListSearch

definition sort_success ::
  "(string \<Rightarrow> js_val option) \<Rightarrow> http_response \<Rightarrow> sort_request \<Rightarrow> ParsedUrlData \<Rightarrow> api_response"
where
  "sort_success parse searchResponse req parsed =
     \<lparr>http_status = 200,
      json_body = JObj [(''success'', JBool True),
                        (''statusCode'', JNum (statusCode searchResponse)),
                        (''data'', case parse (select_body_sort (body searchResponse)) of
                                     None \<Rightarrow> JStr (body searchResponse) | Some fd \<Rightarrow> fd),
                        (''productId'', js_opt_str (sr_productId req)),
                        (''sortType'', JStr (case sr_sortType req of None \<Rightarrow> ''Price'' | Some s \<Rightarrow> s)),
                        (''direction'', JBool (case sr_direction req of None \<Rightarrow> True | Some b \<Rightarrow> b)),
                        (''metadata'', metadata_js parsed)]\<rparr>"

text \<open>
  Lines 4234-4416. The handler takes the cookies of the root visit as they are: unlike the
  initial search it makes no \<^verbatim>\<open>_combined\<close> of its own before it builds the payload (line
  4290). The payload it posts is the built one with \<^verbatim>\<open>sortInfoType\<close> replaced (lines
  4293-4297); the result does not show it.
\<close>

definition flight_search_sort ::
  "(string \<Rightarrow> js_val option) \<Rightarrow> sort_env \<Rightarrow> sort_request \<Rightarrow> net_call list \<times> api_response"
where
  "flight_search_sort parse env req =
     (if \<not> str_truthy (sr_url req)
      then ([], bad_request ''Missing required field: url'')
      else if \<not> str_truthy (sr_productId req)
      then ([], bad_request
                  ''Missing required field: productId (get it from initial FlightListSearchSSE response)'')
      else case parseTripUrl (the (sr_url req)) of
             Inl e \<Rightarrow> ([], failure_response (se_dev env) e)
           | Inr parsed \<Rightarrow>
          (case se_root env of
             Inl e \<Rightarrow> ([GetRoot], failure_response (se_dev env) e)
           | Inr rootResponse \<Rightarrow>
          (let rootCookies = getCookiesFromHostname rootResponse;
               fltBatchId = generateUUID (se_uuid env)
           in case buildFlightSearchPayload (params parsed) rootCookies fltBatchId
                     (sr_productId req) (se_now env) of
                Inl e \<Rightarrow> ([GetRoot], failure_response (se_dev env) e)
              | Inr payload0 \<Rightarrow>
          (case se_c_sign env of
             Inl e \<Rightarrow> ([GetRoot], failure_response (se_dev env) e)
           | Inr wPayloadSource \<Rightarrow>
          (case se_search env of
             Inl e \<Rightarrow> ([GetRoot, PostFlightListSearch], failure_response (se_dev env) e)
           | Inr searchResponse \<Rightarrow>
               ([GetRoot, PostFlightListSearch],
                sort_success parse searchResponse req parsed))))))"

section \<open>Readers of results, and the inputs of the examples\<close>

definition payload_journeys :: "js_error + js_val \<Rightarrow> js_val list option" where
  "payload_journeys r =
     (case r of
        Inl e \<Rightarrow> None
      | Inr payload \<Rightarrow>
          (case get_prop (get_prop payload ''searchCriteria'') ''journeyInfoTypes'' of
             JArr legs \<Rightarrow> Some legs
           | _ \<Rightarrow> None))"

definition payload_batch_id :: "js_error + search_requests \<Rightarrow> js_val option" where
  "payload_batch_id r =
     (case r of Inl e \<Rightarrow> None
              | Inr rq \<Rightarrow> Some (extension_value (rq_payload rq) ''Flt_BatchId''))"

definition telemetry_batch_ids :: "js_error + search_requests \<Rightarrow> string list option" where
  "telemetry_batch_ids r =
     (case r of Inl e \<Rightarrow> None
              | Inr rq \<Rightarrow> Some (concat (map u_batch (ubtList (rq_ubtPayload rq)))))"

text \<open>The URL of the specification's example, and what \<^verbatim>\<open>parseTripUrl\<close> makes of it.\<close>

definition example_url :: string where
  "example_url = ''https://id.trip.com/flights/showfarefirst?dcity=jkt&acity=sin&ddate=2026-02-01&rdate=2026-02-03&triptype=rt&class=y&locale=en-ID&curr=IDR''"

definition example_parsed :: ParsedUrlData where
  "example_parsed =
     \<lparr>hostname = ''id.trip.com'', region = ''id'',
      params = \<lparr>dcity = ''jkt'', acity = ''sin'', ddate = ''2026-02-01'',
                 rdate = Some ''2026-02-03'', triptype = ''rt'', cls = ''y'',
                 quantity = Some 1, localeCode = ''en-ID'', curr = ''IDR'',
                 dairport = None, aairport = None\<rparr>\<rparr>"

text \<open>A clock reading, and a session state as the initial search has it before Stage C.\<close>

definition example_date :: js_date where
  "example_date =
     \<lparr>getFullYear = 2026, getMonth = 0, getDate = 30, getHours = 11, getMinutes = 18,
      getSeconds = 55, getMilliseconds = 469, toISOString = ''2026-01-30T04:18:55.469Z''\<rparr>"

definition example_cookies :: cookies where
  "example_cookies =
     \<lparr>GUID = Some ''09034177410240614425'', UBT_VID = Some ''1769744808271.65f8Qt49rXge'',
      combined = Some (CombinedObject (generateCombinedCookie example_date)),
      transactionId = None, pageId = None\<rparr>"

text \<open>Two random sources: every draw 0, and every draw the largest below 1.\<close>

definition low_draws :: "nat \<Rightarrow> nat" where
  "low_draws k = 0"

definition high_draws :: "nat \<Rightarrow> nat" where
  "high_draws k = 2 ^ 53 - 1"

definition example_ubt_random :: ubt_random where
  "example_ubt_random = \<lparr>r_base = 0, r_uuid = high_draws, r_ts = low_draws\<rparr>"

text \<open>
  The body of the specification's example, \<^verbatim>\<open>data: {"basicInfo":{"recordCount":1}}\<close>, and a
  \<^verbatim>\<open>JSON.parse\<close> that knows the texts of the examples.
\<close>

definition quoted :: "string \<Rightarrow> string" where
  "quoted s = [CHR 0x22] @ s @ [CHR 0x22]"

definition blocked_json_text :: string where
  "blocked_json_text = ''{'' @ quoted ''basicInfo'' @ '':{'' @ quoted ''recordCount'' @ '':1}}''"

definition blocked_with_id_text :: string where
  "blocked_with_id_text =
     ''{'' @ quoted ''basicInfo'' @ '':{'' @ quoted ''recordCount'' @ '':1,''
       @ quoted ''productId'' @ '':'' @ quoted ''P1'' @ ''}}''"

definition example_parse :: "string \<Rightarrow> js_val option" where
  "example_parse s =
     (if s = blocked_json_text
      then Some (JObj [(''basicInfo'', JObj [(''recordCount'', JNum 1)])])
      else if s = blocked_with_id_text
      then Some (JObj [(''basicInfo'', JObj [(''recordCount'', JNum 1),
                                            (''productId'', JStr ''P1'')])])
      else if s = ''1'' then Some (JNum 1)
      else if s = ''2'' then Some (JNum 2)
      else None)"

definition no_unzip :: "string \<Rightarrow> string \<Rightarrow> string option" where
  "no_unzip enc raw = None"

definition plain_response :: "string \<Rightarrow> http_response" where
  "plain_response b = \<lparr>statusCode = 200, body = b, resp_headers = [], resp_cookies = []\<rparr>"

definition blocked_response :: http_response where
  "blocked_response = plain_response (''data: '' @ blocked_json_text)"

definition blocked_with_id_response :: http_response where
  "blocked_with_id_response = plain_response (''data: '' @ blocked_with_id_text)"

text \<open>An event stream of two events, \<^verbatim>\<open>data: 1\<close> and \<^verbatim>\<open>data: 2\<close>.\<close>

definition two_events_response :: http_response where
  "two_events_response = plain_response (''data: 1'' @ [CHR 0x0A] @ ''data: 2'')"

definition example_sort_request :: sort_request where
  "example_sort_request =
     \<lparr>sr_url = Some example_url, sr_productId = Some ''P1'', sr_sortType = None,
      sr_direction = None\<rparr>"

text \<open>
  A run of the sort/refine handler whose root visit sets \<^verbatim>\<open>GUID\<close> and \<^verbatim>\<open>UBT_VID\<close> but no
  \<^verbatim>\<open>_combined\<close> cookie.
\<close>

definition example_sort_env :: sort_env where
  "example_sort_env =
     \<lparr>se_root = Inr \<lparr>statusCode = 200, body = [], resp_headers = [],
                      resp_cookies = [(''GUID'', ''09034177410240614425''),
                                      (''UBT_VID'', ''1769744808271.65f8Qt49rXge'')]\<rparr>,
      se_c_sign = Inr ''sig'',
      se_search = Inr (plain_response blocked_json_text),
      se_now = example_date, se_uuid = low_draws, se_dev = False\<rparr>"

section \<open>Properties of the telemetry codec\<close>

lemma encodeByte_run_s: "encodeByte e (st\<lparr>run_s := x\<rparr>) = (encodeByte e st)\<lparr>run_s := x\<rparr>"
  by (simp add: encodeByte_def writeChar_def Let_def)

lemma flushBits_run_s: "out_d (flushBits (st\<lparr>run_s := x\<rparr>)) = out_d (flushBits st)"
  by (simp add: flushBits_def writeChar_def)

lemma run_s_encodeByte: "run_s (encodeByte e st) = run_s st"
  by (simp add: encodeByte_def writeChar_def Let_def)

lemma skip_o_encodeByte: "skip_o (encodeByte e st) = skip_o st"
  by (simp add: encodeByte_def writeChar_def Let_def)

lemma encodeBytes_empty: "encodeBytes [] = Some (pack6 [19])"
  by (simp add: encodeBytes_def outer_loop.simps pack6_def emit_bytes_def run_s_encodeByte
      init_state_def)

lemma encodeBytes_one: "encodeBytes [b0] = Some (pack6 [19, 255, b0])"
  by (simp add: encodeBytes_def outer_loop.simps processChunk_def getMin_def chunk_loop.simps
      processPosition_def emitOrLiteral_def encodeLiterals_def lit_outer.simps lit_inner.simps
      pack6_def emit_bytes_def run_s_encodeByte skip_o_encodeByte init_state_def byte_at_def
      encodeByte_run_s flushBits_run_s)

lemma encodeBytes_two: "encodeBytes [b0, b1] = Some (pack6 [19, 254, b0, b1])"
  by (simp add: encodeBytes_def outer_loop.simps processChunk_def getMin_def chunk_loop.simps
      processPosition_def emitOrLiteral_def encodeLiterals_def lit_outer.simps lit_inner.simps
      pack6_def emit_bytes_def run_s_encodeByte skip_o_encodeByte init_state_def byte_at_def
      encodeByte_run_s flushBits_run_s)

lemma pack6_marker: "pack6 [19] = ''Ew''"
  by (simp add: pack6_def emit_bytes_def encodeByte_def writeChar_def flushBits_def
      alphabet_t_def init_state_def Let_def)

lemma pack6_marker_zero: "pack6 [19, 0] = ''EwA''"
  by (simp add: pack6_def emit_bytes_def encodeByte_def writeChar_def flushBits_def
      alphabet_t_def init_state_def Let_def)

text \<open>
  C7, as the code has it. An input of one or two bytes leaves the marker byte 19 and one
  literal block: the control byte \<open>(- length) mod 256\<close>, then the bytes. On the empty input
  the loop of lines 20-22 never runs, no literal run is pending (\<^verbatim>\<open>s\<close> stays -1, the guard
  of line 23), and the output is the packed marker byte alone.
\<close>

theorem short_input_is_marker_and_literals:
  "length bytes < 3 \<Longrightarrow>
   encodeBytes bytes =
     Some (pack6 (19 # (if bytes = [] then []
                        else nat ((- int (length bytes)) mod 256) # bytes)))"
proof -
  assume short: "length bytes < 3"
  consider "bytes = []" | b0 where "bytes = [b0]" | b0 b1 where "bytes = [b0, b1]"
  proof (cases bytes)
    case Nil
    then show ?thesis using that by simp
  next
    case (Cons b0 rest)
    show ?thesis
    proof (cases rest)
      case Nil
      then show ?thesis using that Cons by simp
    next
      case (Cons b1 rest')
      then have "rest' = []" using short \<open>bytes = b0 # rest\<close> by simp
      then show ?thesis using that Cons \<open>bytes = b0 # rest\<close> by simp
    qed
  qed
  then show ?thesis
  proof cases
    case 1
    then show ?thesis by (simp add: encodeBytes_empty)
  next
    case 2
    then show ?thesis by (simp add: encodeBytes_one)
  next
    case 3
    then show ?thesis by (simp add: encodeBytes_two)
  qed
qed

theorem short_input_is_marker_and_literals_witness:
  "length [123, 125 :: nat] < 3 \<and> encodeBytes [123, 125] = Some (pack6 [19, 254, 123, 125])"
  using short_input_is_marker_and_literals [of "[123, 125]"] by simp

text \<open>
  C7 as it is stated also covers the empty input, where it asks for the marker byte and a
  literal block with control byte \<open>(- 0) mod 256 = 0\<close>. The code emits the marker byte
  only: \<open>''Ew''\<close>, not \<open>''EwA''\<close>.
\<close>

theorem empty_input_has_no_literal_block:
  "encodeBytes [] \<noteq> Some (pack6 [19, nat ((- int (length ([] :: nat list))) mod 256)])"
  by (simp add: encodeBytes_empty pack6_marker pack6_marker_zero)

lemma or_128: "x < 128 \<Longrightarrow> x OR 128 = x + (128::nat)"
proof -
  assume a: "x < 128"
  have "x + 128 = x OR 128"
  proof (rule disjunctive_add)
    fix n
    show "\<not> bit x n \<or> \<not> bit (128::nat) n"
    proof (cases "n = 7")
      case True
      have "x < 2 ^ 7" using a by simp
      then have "\<not> bit x 7"
        by (simp add: bit_iff_odd)
      then show ?thesis using True by simp
    next
      case False
      have "(128::nat) = 2 ^ 7" by simp
      then have "\<not> bit (128::nat) n" using False
        by (metis bit_exp_iff)
      then show ?thesis by simp
    qed
  qed
  then show ?thesis by simp
qed

lemma low7_with_continuation: "(127 AND i) OR 128 = i mod 128 + (128::nat)"
proof -
  have m: "(127::nat) = mask 7" by (simp add: mask_eq_exp_minus_1)
  have "i AND mask 7 = i mod 2 ^ 7"
    by (simp add: take_bit_eq_mod flip: take_bit_eq_mask)
  then have "127 AND i = i mod 128"
    by (simp add: m and.commute)
  then show ?thesis by (simp add: or_128)
qed

lemma emitDistance_varint: "emitDistance i st = emit_bytes (varint i) st"
proof (induction i st rule: emitDistance.induct)
  case (1 i st)
  show ?case
  proof (cases "i > 127")
    case True
    then show ?thesis
      using 1 by (subst emitDistance.simps, subst varint.simps)
        (simp add: emit_bytes_def low7_with_continuation drop_bit_eq_div)
  next
    case False
    then show ?thesis
      by (subst emitDistance.simps, subst varint.simps) (simp add: emit_bytes_def)
  qed
qed

lemma emit_bytes_append: "emit_bytes (xs @ ys) st = emit_bytes ys (emit_bytes xs st)"
  by (simp add: emit_bytes_def)

lemma fml_loop_bounds: "t \<le> fml_loop bytes r t n \<and> fml_loop bytes r t n \<le> max r t"
proof (induction bytes r t n rule: fml_loop.induct)
  case (1 bytes r t n)
  show ?case
  proof (cases "t < r \<and> n < length bytes \<and> t < length bytes \<and> bytes ! t = bytes ! n")
    case True
    then show ?thesis using 1 by (subst (1 2) fml_loop.simps) auto
  next
    case False
    then show ?thesis by (subst (1 2) fml_loop.simps) auto
  qed
qed

lemma findMatchLength_le: "findMatchLength bytes a e \<le> 130"
  using fml_loop_bounds [of e bytes "min (e + 130) a" a]
  by (auto simp: findMatchLength_def max_def min_def split: if_splits)

lemma findMatchLength_fits:
  "0 < findMatchLength bytes a e \<Longrightarrow> e + findMatchLength bytes a e \<le> a"
  using fml_loop_bounds [of e bytes "min (e + 130) a" a]
  by (auto simp: findMatchLength_def max_def min_def split: if_splits)

text \<open>
  Whenever the chain walk ends, what it returns is no match or a match of length 3 to 130
  that lies wholly before the current position.
\<close>

lemma walk_chain_token:
  assumes "walk_chain bytes r u a cand t0 i0 = Some y" and "token_ok bytes a t0 i0"
  shows "token_ok bytes a (fst y) (snd y)"
  using assms
proof (induction bytes r u a cand t0 i0 y
    rule: walk_chain.raw_induct [rotated 1, consumes 1, case_names step])
  case (step walk bytes r u a cand t i y)
  show ?case
  proof (cases cand)
    case None
    then show ?thesis using step by auto
  next
    case (Some ob)
    let ?m = "findMatchLength bytes a ob"
    show ?thesis
    proof (cases "t \<noteq> 130 \<and> int a - 16384 \<le> int ob")
      case False
      then show ?thesis using step Some by auto
    next
      case True
      show ?thesis
      proof (cases "3 \<le> ?m \<and> t < ?m")
        case better: True
        then have "ob + ?m \<le> a" using findMatchLength_fits [of bytes a ob] by simp
        then have "token_ok bytes a ?m (a - ob - ?m)"
          using better findMatchLength_le [of bytes a ob] by (auto simp: token_ok_def)
        moreover have "walk bytes r u a (r (int ob - int u)) ?m (a - ob - ?m) = Some y"
          using step(2) Some True better by simp
        ultimately show ?thesis using step(1) by blast
      next
        case False
        then have "walk bytes r u a (r (int ob - int u)) t i = Some y"
          using step(2) Some True by auto
        then show ?thesis using step(1) step(3) by blast
      qed
    qed
  qed
qed

lemma processPosition_token:
  assumes "processPosition bytes u l a st = Some st'"
  shows "\<exists>t i st1. token_ok bytes a t i \<and> st' = emitOrLiteral bytes a t i st1"
proof (cases "int a < l \<and> a \<ge> skip_o st")
  case True
  let ?prev = "map_option (\<lambda>v. v - 1) (tbl_n st (calculateHash bytes a))"
  from assms True obtain t i where
    w: "walk_chain bytes (chain_r st) u a ?prev 0 0 = Some (t, i)"
    by (auto simp: processPosition_def Let_def split: option.splits)
  have "token_ok bytes a 0 0" by (simp add: token_ok_def)
  from walk_chain_token [OF w this] have "token_ok bytes a t i" by simp
  moreover from assms True w have "\<exists>st1. st' = emitOrLiteral bytes a t i st1"
    by (auto simp: processPosition_def Let_def)
  ultimately show ?thesis by blast
next
  case False
  have "token_ok bytes a 0 0" by (simp add: token_ok_def)
  moreover from assms False have "\<exists>st1. st' = emitOrLiteral bytes a 0 0 st1"
    by (auto simp: processPosition_def Let_def split: if_splits)
  ultimately show ?thesis by blast
qed

text \<open>
  C6. A match token is written by the branch \<^verbatim>\<open>t >= 3\<close> of lines 46-54, after the pending
  literal run is flushed: \<^verbatim>\<open>encodeByte(t - 3)\<close>, then the loop over the field \<^verbatim>\<open>i\<close>. The
  bytes so written are the varint of \<open>t - 3\<close> (one byte, as \<open>t - 3 \<le> 127\<close>) followed by
  the varint of the distance field, in that order.
\<close>

theorem match_token_is_two_varints:
  "3 \<le> t \<Longrightarrow> t \<le> 130 \<Longrightarrow>
   emitOrLiteral bytes a t i st =
     emit_bytes (varint (t - 3) @ varint i) (flushForMatch bytes a t st)"
proof -
  assume lo: "3 \<le> t" and hi: "t \<le> 130"
  have "varint (t - 3) = [t - 3]"
    using hi by (subst varint.simps) simp
  then show ?thesis
    using lo by (simp add: emitOrLiteral_def emitMatch_def emitDistance_varint
        emit_bytes_append) (simp add: emit_bytes_def)
qed

theorem match_token_is_two_varints_witness:
  "(3::nat) \<le> 5 \<and> (5::nat) \<le> 130 \<and>
   emitOrLiteral [] 0 5 300 init_state =
     emit_bytes [2, 172, 2] (flushForMatch [] 0 5 init_state)"
proof -
  have v: "varint (5 - 3) @ varint 300 = [2, 172, 2]"
    by (simp add: varint.simps)
  show ?thesis
    using match_token_is_two_varints [of 5 "[]" 0 300 init_state] v by simp
qed

section \<open>Properties of the URL parser and the search payload\<close>

text \<open>
  C9. The URL of the example parses to region \<open>id\<close>, trip type \<open>rt\<close> (the code 2, named
  \<open>RT\<close>: round trip), cabin \<open>y\<close> (the grade 1, named \<open>Economy\<close>), locale \<open>en-ID\<close> and
  currency \<open>IDR\<close>; the search payload built from these parameters, for any session state
  that has a \<^verbatim>\<open>_combined\<close> entry, has exactly two journey legs: JKT to SIN on 2026-02-01
  and SIN to JKT on 2026-02-03.
\<close>

theorem example_url_round_trip:
  "parseTripUrl example_url = Inr example_parsed
   \<and> region example_parsed = ''id''
   \<and> triptype (params example_parsed) = ''rt''
   \<and> tripType_of (params example_parsed) = 2
   \<and> flightWayType_of (params example_parsed) = ''RT''
   \<and> cls (params example_parsed) = ''y''
   \<and> grade_of (params example_parsed) = 1
   \<and> cabinClass_of (params example_parsed) = ''Economy''
   \<and> localeCode (params example_parsed) = ''en-ID''
   \<and> curr (params example_parsed) = ''IDR''
   \<and> payload_journeys (buildFlightSearchPayload (params example_parsed)
                          (c\<lparr>combined := Some comb\<rparr>) fltBatchId pid now)
       = Some [JObj [(''journeyNo'', JNum 1), (''departDate'', JStr ''2026-02-01''),
                     (''departCode'', JStr ''JKT''), (''arriveCode'', JStr ''SIN''),
                     (''departAirport'', JStr []), (''arriveAirport'', JStr [])],
               JObj [(''journeyNo'', JNum 2), (''departDate'', JStr ''2026-02-03''),
                     (''departCode'', JStr ''SIN''), (''arriveCode'', JStr ''JKT''),
                     (''departAirport'', JStr []), (''arriveAirport'', JStr [])]]"
proof -
  have parse: "parseTripUrl example_url = Inr example_parsed"
    unfolding example_url_def example_parsed_def by code_simp
  have tt: "tripType_of (params example_parsed) = 2"
    by (simp add: tripType_of_def example_parsed_def toLowerCase_def lower_table_def)
  have legs: "journeyInfoTypes_of (params example_parsed) =
      [JObj [(''journeyNo'', JNum 1), (''departDate'', JStr ''2026-02-01''),
             (''departCode'', JStr ''JKT''), (''arriveCode'', JStr ''SIN''),
             (''departAirport'', JStr []), (''arriveAirport'', JStr [])],
       JObj [(''journeyNo'', JNum 2), (''departDate'', JStr ''2026-02-03''),
             (''departCode'', JStr ''SIN''), (''arriveCode'', JStr ''JKT''),
             (''departAirport'', JStr []), (''arriveAirport'', JStr [])]]"
    by (simp add: journeyInfoTypes_of_def tt str_truthy_def)
       (simp add: example_parsed_def toUpperCase_def upper_table_def)
  have pj: "payload_journeys (buildFlightSearchPayload (params example_parsed)
                          (c\<lparr>combined := Some comb\<rparr>) fltBatchId pid now)
            = Some (journeyInfoTypes_of (params example_parsed))"
    by (simp add: payload_journeys_def buildFlightSearchPayload_def Let_def)
  show ?thesis
    using parse tt legs pj
    by (simp add: flightWayType_of_def grade_of_def cabinClass_of_def)
       (simp add: example_parsed_def)
qed

section \<open>Properties of the initial search: join and result\<close>

lemma collect_failed_search:
  "collect_results 0 (concurrentCalls ubt (Inl e)) ([], None) =
     ([\<lparr>cr_name = Some ''UBT collect'',
         cr_success = (case ubt of Inl _ \<Rightarrow> False | Inr _ \<Rightarrow> True),
         cr_statusCode = (case ubt of Inl _ \<Rightarrow> None | Inr r \<Rightarrow> Some (statusCode r)),
         cr_error = (case ubt of Inl x \<Rightarrow> Some (reason_text x) | Inr _ \<Rightarrow> None)\<rparr>,
       \<lparr>cr_name = Some ''clog'', cr_success = False, cr_statusCode = None,
         cr_error = Some (reason_text e)\<rparr>], None)"
  by (cases ubt) (simp_all add: concurrentCalls_def settle_def name_at_def endpointNames_def)

lemma finish_with_response:
  "finish_flight_search parse unzip dev parsed finalCookies ubt (Inr response) =
     (success_response response (decode_initial parse unzip response) finalCookies parsed,
      console (decode_initial parse unzip response))"
  by (cases ubt) (simp_all add: finish_flight_search_def concurrentCalls_def settle_def
      require_search_response_def Let_def)

text \<open>
  C4. When the main search call rejects, whatever the telemetry call did, the handler
  answers with status 500, \<open>success = false\<close> and the message
  \<open>FlightListSearchSSE response not found\<close>, which names the step. (The rejected call is
  recorded under the name \<open>clog\<close>, the second entry of \<^verbatim>\<open>endpointNames\<close>, so the lookup of
  line 3462 finds nothing and the text of the underlying error is not in the message.)
\<close>

theorem failed_search_names_step:
  "finish_flight_search parse unzip dev parsed finalCookies ubt (Inl e) =
     (failure_response dev (JsError ''Error'' ''FlightListSearchSSE response not found'' []), [])
   \<and> http_status (fst (finish_flight_search parse unzip dev parsed finalCookies ubt (Inl e)))
        = 500
   \<and> result_field (fst (finish_flight_search parse unzip dev parsed finalCookies ubt (Inl e)))
        ''success'' = JBool False
   \<and> result_field (fst (finish_flight_search parse unzip dev parsed finalCookies ubt (Inl e)))
        ''error'' = JStr ''FlightListSearchSSE response not found''
   \<and> starts_with ''FlightListSearchSSE'' ''FlightListSearchSSE response not found''"
  by (simp add: finish_flight_search_def collect_failed_search require_search_response_def
      failure_response_def result_field_def or_str_def)

text \<open>
  C5. When the telemetry call rejects and the main search call resolves with a response,
  the handler answers with status 200 and \<open>success = true\<close>.
\<close>

theorem telemetry_failure_tolerated:
  "result_field (fst (finish_flight_search parse unzip dev parsed finalCookies (Inl e)
                        (Inr response))) ''success'' = JBool True
   \<and> http_status (fst (finish_flight_search parse unzip dev parsed finalCookies (Inl e)
                         (Inr response))) = 200"
  by (simp add: finish_with_response success_response_def result_field_def)

text \<open>
  C2, as the code has it. When the decoded response has \<open>basicInfo.recordCount = 1\<close>, the
  handler answers with status 200 and \<open>success = true\<close> and the decoded data; the only
  trace of the heuristic is the warning on the console. The result object has the six
  fields of lines 3576-3591, none of them a flag, and its \<open>productId\<close> is the one of the
  response when that is truthy, \<^verbatim>\<open>undefined\<close> otherwise.
\<close>

theorem blocked_response_is_success_without_flag:
  assumes "decodeBody unzip response = Inr responseBody"
    and "parse (select_body_initial responseBody) = Some fd"
    and "get_prop (get_prop fd ''basicInfo'') ''recordCount'' = JNum 1"
  shows "finish_flight_search parse unzip dev parsed finalCookies ubt (Inr response) =
           (success_response response (inspect_flightData fd) finalCookies parsed,
            [if truthy (get_prop (get_prop fd ''basicInfo'') ''productId'')
             then ProductIdExtracted (get_prop (get_prop fd ''basicInfo'') ''productId'')
             else ProductIdNotFound,
             BlockedWarning])
         \<and> http_status (fst (finish_flight_search parse unzip dev parsed finalCookies ubt
                               (Inr response))) = 200
         \<and> field_names (fst (finish_flight_search parse unzip dev parsed finalCookies ubt
                               (Inr response)))
             = [''success'', ''statusCode'', ''data'', ''productId'', ''cookies'', ''metadata'']
         \<and> result_field (fst (finish_flight_search parse unzip dev parsed finalCookies ubt
                                (Inr response))) ''success'' = JBool True
         \<and> result_field (fst (finish_flight_search parse unzip dev parsed finalCookies ubt
                                (Inr response))) ''data'' = fd
         \<and> result_field (fst (finish_flight_search parse unzip dev parsed finalCookies ubt
                                (Inr response))) ''productId''
             = (if truthy (get_prop (get_prop fd ''basicInfo'') ''productId'')
                then get_prop (get_prop fd ''basicInfo'') ''productId'' else JUndefined)"
  using assms
  by (simp add: finish_with_response decode_initial_def inspect_flightData_def
      success_response_def field_names_def result_field_def Let_def)

lemma blocked_with_id_response_parts:
  "decodeBody no_unzip blocked_with_id_response = Inr (body blocked_with_id_response)"
  "select_body_initial (body blocked_with_id_response) = blocked_with_id_text"
  by (simp_all add: decodeBody_def blocked_with_id_response_def plain_response_def
      select_body_initial_def dataLines_initial_def blocked_with_id_text_def quoted_def
      trim_def is_space_def)

lemma example_parse_blocked_with_id:
  "example_parse blocked_with_id_text =
     Some (JObj [(''basicInfo'', JObj [(''recordCount'', JNum 1), (''productId'', JStr ''P1'')])])"
  by (simp add: example_parse_def blocked_with_id_text_def blocked_json_text_def quoted_def)

text \<open>
  The theorem at a response whose body is
  \<^verbatim>\<open>data: {"basicInfo":{"recordCount":1,"productId":"P1"}}\<close>: the result is a success and
  its product id is \<open>P1\<close>.
\<close>

theorem blocked_response_is_success_without_flag_witness:
  "decodeBody no_unzip blocked_with_id_response = Inr (body blocked_with_id_response)
   \<and> example_parse (select_body_initial (body blocked_with_id_response))
       = Some (JObj [(''basicInfo'', JObj [(''recordCount'', JNum 1), (''productId'', JStr ''P1'')])])
   \<and> get_prop (get_prop (JObj [(''basicInfo'', JObj [(''recordCount'', JNum 1),
                                                      (''productId'', JStr ''P1'')])])
                 ''basicInfo'') ''recordCount'' = JNum 1
   \<and> result_field (fst (finish_flight_search example_parse no_unzip False example_parsed
                          example_cookies (Inl (JsError ''Error'' ''socket hang up'' []))
                          (Inr blocked_with_id_response))) ''success'' = JBool True
   \<and> result_field (fst (finish_flight_search example_parse no_unzip False example_parsed
                          example_cookies (Inl (JsError ''Error'' ''socket hang up'' []))
                          (Inr blocked_with_id_response))) ''productId'' = JStr ''P1''"
proof -
  let ?fd = "JObj [(''basicInfo'', JObj [(''recordCount'', JNum 1), (''productId'', JStr ''P1'')])]"
  have h1: "decodeBody no_unzip blocked_with_id_response = Inr (body blocked_with_id_response)"
    by (rule blocked_with_id_response_parts)
  have h2: "example_parse (select_body_initial (body blocked_with_id_response)) = Some ?fd"
    by (simp add: blocked_with_id_response_parts example_parse_blocked_with_id)
  have h3: "get_prop (get_prop ?fd ''basicInfo'') ''recordCount'' = JNum 1"
    by simp
  note r = blocked_response_is_success_without_flag [where parse = example_parse
        and unzip = no_unzip and response = blocked_with_id_response
        and responseBody = "body blocked_with_id_response" and fd = ?fd and dev = False
        and parsed = example_parsed and finalCookies = example_cookies
        and ubt = "Inl (JsError ''Error'' ''socket hang up'' [])", OF h1 h2 h3]
  let ?res = "fst (finish_flight_search example_parse no_unzip False example_parsed
                     example_cookies (Inl (JsError ''Error'' ''socket hang up'' []))
                     (Inr blocked_with_id_response))"
  from r have s: "result_field ?res ''success'' = JBool True"
    by blast
  from r have "result_field ?res ''productId''
      = (if truthy (get_prop (get_prop ?fd ''basicInfo'') ''productId'')
         then get_prop (get_prop ?fd ''basicInfo'') ''productId'' else JUndefined)"
    by blast
  then have p: "result_field ?res ''productId'' = JStr ''P1''"
    by simp
  show ?thesis
    using h1 h2 h3 s p by blast
qed

lemma blocked_response_parts:
  "resp_headers blocked_response = []" "body blocked_response \<noteq> []"
  "select_body_initial (body blocked_response) = blocked_json_text"
  by (simp_all add: blocked_response_def plain_response_def select_body_initial_def
      dataLines_initial_def blocked_json_text_def quoted_def trim_def is_space_def)

lemma decode_blocked:
  "decode_initial example_parse no_unzip blocked_response =
     inspect_flightData (JObj [(''basicInfo'', JObj [(''recordCount'', JNum 1)])])"
  by (simp add: decode_initial_def decodeBody_def blocked_response_parts example_parse_def
      Let_def)

text \<open>
  C2 as it is stated asks for a diagnostic flag set to true in the result. At the body of
  the specification's own example, \<^verbatim>\<open>data: {"basicInfo":{"recordCount":1}}\<close>, the result
  has the fields \<open>success\<close>, \<open>statusCode\<close>, \<open>data\<close>, \<open>productId\<close>, \<open>cookies\<close> and
  \<open>metadata\<close>, and the only one whose value is \<^verbatim>\<open>true\<close> is \<open>success\<close>.
\<close>

theorem blocked_example_carries_no_flag:
  "true_fields (fst (finish_flight_search example_parse no_unzip False example_parsed
                       example_cookies (Inr (plain_response [])) (Inr blocked_response)))
     = [''success'']
   \<and> field_names (fst (finish_flight_search example_parse no_unzip False example_parsed
                          example_cookies (Inr (plain_response [])) (Inr blocked_response)))
     = [''success'', ''statusCode'', ''data'', ''productId'', ''cookies'', ''metadata'']"
  by (simp add: finish_with_response decode_blocked inspect_flightData_def success_response_def
      true_fields_def field_names_def metadata_js_def js_opt_str_def example_cookies_def
      Let_def split: option.split)

section \<open>Properties of the telemetry payload and the batch id\<close>

lemma number_items_bounds:
  "e \<in> set (number_items c rows) \<Longrightarrow> c \<le> u_seq e \<and> u_seq e < c + int (length rows)"
proof (induction rows arbitrary: c)
  case Nil
  then show ?case by simp
next
  case (Cons row rows)
  obtain t k g l b where row: "row = (t, k, g, l, b)" by (cases row) auto
  from Cons.prems row
  consider "u_seq e = c" | "e \<in> set (number_items (c + 1) rows)" by auto
  then show ?case
  proof cases
    case 1
    then show ?thesis by simp
  next
    case 2
    from Cons.IH [OF 2] show ?thesis by simp
  qed
qed

lemma number_items_sorted: "sorted_wrt (<) (map u_seq (number_items c rows))"
proof (induction rows arbitrary: c)
  case Nil
  then show ?case by simp
next
  case (Cons row rows)
  obtain t k g l b where row: "row = (t, k, g, l, b)" by (cases row) auto
  have "\<forall>e \<in> set (number_items (c + 1) rows). c < u_seq e"
    using number_items_bounds [of _ "c + 1" rows] by fastforce
  then show ?case using Cons.IH [of "c + 1"] row by simp
qed

lemma number_items_ts:
  "list_all (\<lambda>e. u_ts e \<le> T) (number_items c rows) = list_all (\<lambda>row. fst row \<le> T) rows"
proof (induction rows arbitrary: c)
  case Nil
  then show ?case by simp
next
  case (Cons row rows)
  obtain t k g l b where row: "row = (t, k, g, l, b)" by (cases row) auto
  show ?case using Cons.IH [of "c + 1"] row by simp
qed

lemma ts_search_le: "ts_search s u \<le> s"
  by (simp add: ts_search_def)

lemma ts_resource_le: "ts_resource s u \<le> s"
  by (simp add: ts_resource_def)

lemma part1_length: "length (ubtListItemsPart1 t) = 11"
  by (simp add: ubtListItemsPart1_def)

lemma part1_ts: "b + 71 \<le> T \<Longrightarrow> list_all (\<lambda>row. fst row \<le> T) (ubtListItemsPart1 b)"
  by (simp add: ubtListItemsPart1_def)

lemma part2_ts: "list_all (\<lambda>row. fst row \<le> s) (ubtListItemsPart2 s d f)"
  by (simp add: ubtListItemsPart2_def ts_search_le ts_resource_le)

text \<open>
  C8. In every payload built by \<^verbatim>\<open>buildUbtPayload\<close> the sequence numbers of \<^verbatim>\<open>ubtList\<close>
  are strictly increasing (34 to 44, then 151 to 187) and no timestamp is later than
  \<^verbatim>\<open>sendTs\<close>: the first part lies at least 99929 ms before it, the second at least
  100000 ms, whatever the draws are.
\<close>

theorem ubtList_sequence_and_timestamps:
  "sorted_wrt (<) (map u_seq (ubtList (buildUbtPayload p c url ts parsed tok rnd)))
   \<and> list_all (\<lambda>e. u_ts e \<le> sendTs (buildUbtPayload p c url ts parsed tok rnd))
        (ubtList (buildUbtPayload p c url ts parsed tok rnd))"
proof -
  let ?base = "ts - int (random_int (r_base rnd) 30000) - 100000"
  let ?p1 = "number_items 34 (ubtListItemsPart1 ?base)"
  let ?p2 = "number_items 151 (ubtListItemsPart2 ts (r_ts rnd) (generateUUID (r_uuid rnd)))"
  have l: "ubtList (buildUbtPayload p c url ts parsed tok rnd) = ?p1 @ ?p2"
    and s: "sendTs (buildUbtPayload p c url ts parsed tok rnd) = ts"
    by (simp_all add: buildUbtPayload_def Let_def)
  have cross: "\<forall>x \<in> set ?p1. \<forall>y \<in> set ?p2. u_seq x < u_seq y"
  proof (intro ballI)
    fix x y
    assume "x \<in> set ?p1" and "y \<in> set ?p2"
    then have "u_seq x < 34 + int (length (ubtListItemsPart1 ?base))" and "151 \<le> u_seq y"
      using number_items_bounds by blast+
    then show "u_seq x < u_seq y" by (simp add: part1_length)
  qed
  have sorted: "sorted_wrt (<) (map u_seq (?p1 @ ?p2))"
    using cross by (simp add: sorted_wrt_append number_items_sorted)
  have "list_all (\<lambda>e. u_ts e \<le> ts) ?p1"
    by (simp add: number_items_ts part1_ts)
  moreover have "list_all (\<lambda>e. u_ts e \<le> ts) ?p2"
    by (simp add: number_items_ts part2_ts)
  ultimately have "list_all (\<lambda>e. u_ts e \<le> ts) (?p1 @ ?p2)"
    by simp
  then show ?thesis using sorted l s by simp
qed

lemma random_int_high: "random_int (high_draws k) 16 = 15"
  by (simp add: random_int_def high_draws_def)

lemma random_int_low: "random_int (low_draws k) 16 = 0"
  by (simp add: random_int_def low_draws_def)

lemma or_3_8: "((15::nat) AND 3) OR 8 = 11"
proof -
  have "int (((15::nat) AND 3) OR 8) = 11"
    by (simp add: of_nat_or_eq of_nat_and_eq)
  then show ?thesis by linarith
qed

lemma x_digit_high: "digit_char (random_int (high_draws k) 16) = CHR ''f''"
  by (simp add: random_int_high digit_char_def)

lemma y_digit_high: "digit_char ((random_int (high_draws k) 16 AND 3) OR 8) = CHR ''b''"
  by (simp only: random_int_high or_3_8) (simp add: digit_char_def)

lemma x_digit_low: "digit_char (random_int (low_draws k) 16) = CHR ''0''"
  by (simp add: random_int_low digit_char_def)

lemma y_digit_low: "digit_char ((random_int (low_draws k) 16 AND 3) OR 8) = CHR ''8''"
  by (simp add: random_int_low digit_char_def)

lemma generateUUID_low: "generateUUID low_draws = ''00000000-0000-4000-8000-000000000000''"
  by (simp add: generateUUID_def x_digit_low y_digit_low)

lemma generateUUID_high: "generateUUID high_draws = ''ffffffff-ffff-4fff-bfff-ffffffffffff''"
  by (simp add: generateUUID_def x_digit_high y_digit_high)

text \<open>
  Where the two ids come from: the search payload carries the id the handler made from its
  own draws, and the four bodies of the telemetry payload that embed a \<^verbatim>\<open>Flt_BatchId\<close>
  carry the id \<^verbatim>\<open>buildUbtPayload\<close> made from other draws.
\<close>

lemma payload_batch_id_general:
  "combined finalCookies \<noteq> None \<Longrightarrow>
   payload_batch_id (build_search_requests parsed finalCookies url now ts tok h_uuid rnd)
     = Some (JStr (generateUUID h_uuid))"
  by (auto simp: payload_batch_id_def build_search_requests_def buildFlightSearchPayload_def
      extension_value_def ext_def ext_no_value_def Let_def)

lemma telemetry_batch_ids_general:
  "combined finalCookies \<noteq> None \<Longrightarrow>
   telemetry_batch_ids (build_search_requests parsed finalCookies url now ts tok h_uuid rnd)
     = Some [generateUUID (r_uuid rnd), generateUUID (r_uuid rnd), generateUUID (r_uuid rnd),
             generateUUID (r_uuid rnd)]"
  by (auto simp: telemetry_batch_ids_def build_search_requests_def buildFlightSearchPayload_def
      buildUbtPayload_def ubtListItemsPart1_def ubtListItemsPart2_def Let_def)

text \<open>
  C1 does not hold of the code. With a random source whose draws are 0 while the handler
  makes its batch id and the largest value below 1 while \<^verbatim>\<open>buildUbtPayload\<close> makes its
  own, the search payload's \<^verbatim>\<open>Flt_BatchId\<close> is \<open>00000000-0000-4000-8000-000000000000\<close>
  and the id embedded in the telemetry payload is \<open>ffffffff-ffff-4fff-bfff-ffffffffffff\<close>.
\<close>

theorem batch_id_not_shared:
  "payload_batch_id (build_search_requests example_parsed example_cookies example_url
                       example_date 1769746870490 [] low_draws example_ubt_random)
     = Some (JStr ''00000000-0000-4000-8000-000000000000'')
   \<and> telemetry_batch_ids (build_search_requests example_parsed example_cookies example_url
                            example_date 1769746870490 [] low_draws example_ubt_random)
     = Some [''ffffffff-ffff-4fff-bfff-ffffffffffff'', ''ffffffff-ffff-4fff-bfff-ffffffffffff'',
             ''ffffffff-ffff-4fff-bfff-ffffffffffff'', ''ffffffff-ffff-4fff-bfff-ffffffffffff'']"
proof -
  have c: "combined example_cookies \<noteq> None" by (simp add: example_cookies_def)
  have r: "r_uuid example_ubt_random = high_draws" by (simp add: example_ubt_random_def)
  show ?thesis
    using payload_batch_id_general [OF c] telemetry_batch_ids_general [OF c]
    by (simp add: generateUUID_low generateUUID_high r)
qed

section \<open>Properties of the response decoder\<close>

lemma starts_with_iff: "starts_with p s \<longleftrightarrow> (\<exists>b. s = p @ b)"
  by (induction p s rule: starts_with.induct) auto

lemma js_includes_iff: "js_includes p s \<longleftrightarrow> (\<exists>a b. s = a @ p @ b)"
proof (induction s)
  case Nil
  then show ?case by auto
next
  case (Cons c cs)
  show ?case
  proof
    assume "js_includes p (c # cs)"
    then consider "starts_with p (c # cs)" | "js_includes p cs" by auto
    then show "\<exists>a b. c # cs = a @ p @ b"
    proof cases
      case 1
      then obtain b where "c # cs = p @ b" using starts_with_iff by blast
      then have "c # cs = [] @ p @ b" by simp
      then show ?thesis by blast
    next
      case 2
      then obtain a b where "cs = a @ p @ b" using Cons.IH by blast
      then have "c # cs = (c # a) @ p @ b" by simp
      then show ?thesis by blast
    qed
  next
    assume "\<exists>a b. c # cs = a @ p @ b"
    then obtain a b where ab: "c # cs = a @ p @ b" by blast
    show "js_includes p (c # cs)"
    proof (cases a)
      case Nil
      then have "starts_with p (c # cs)" using ab starts_with_iff by auto
      then show ?thesis by simp
    next
      case (Cons x a')
      then have "cs = a' @ p @ b" using ab by simp
      then have "js_includes p cs" using Cons.IH by blast
      then show ?thesis by simp
    qed
  qed
qed

lemma split_on_nonempty: "split_on sep s \<noteq> []"
  by (induction s) (auto split: list.splits)

lemma split_on_first_prefix: "split_on sep s = l0 # ls \<Longrightarrow> \<exists>b. s = l0 @ b"
proof (induction s arbitrary: l0 ls)
  case Nil
  then show ?case by simp
next
  case (Cons c cs)
  show ?case
  proof (cases "c = sep")
    case True
    then have "l0 = []" using Cons.prems by simp
    then show ?thesis by simp
  next
    case False
    obtain m ms where sp: "split_on sep cs = m # ms"
      using split_on_nonempty [of sep cs] by (cases "split_on sep cs") auto
    then have "l0 = c # m" using Cons.prems False by simp
    moreover obtain b where "cs = m @ b" using Cons.IH [OF sp] by blast
    ultimately show ?thesis by simp
  qed
qed

lemma split_on_part: "l \<in> set (split_on sep s) \<Longrightarrow> \<exists>a b. s = a @ l @ b"
proof (induction s arbitrary: l)
  case Nil
  then show ?case by simp
next
  case (Cons c cs)
  show ?case
  proof (cases "c = sep")
    case True
    then consider "l = []" | "l \<in> set (split_on sep cs)" using Cons.prems by auto
    then show ?thesis
    proof cases
      case 1
      then have "c # cs = [] @ l @ (c # cs)" by simp
      then show ?thesis by blast
    next
      case 2
      then obtain a b where "cs = a @ l @ b" using Cons.IH by blast
      then have "c # cs = (c # a) @ l @ b" by simp
      then show ?thesis by blast
    qed
  next
    case False
    obtain l0 ls where sp: "split_on sep cs = l0 # ls"
      using split_on_nonempty [of sep cs] by (cases "split_on sep cs") auto
    then have "l = c # l0 \<or> l \<in> set ls" using Cons.prems False by auto
    then show ?thesis
    proof
      assume l: "l = c # l0"
      obtain b where "cs = l0 @ b" using split_on_first_prefix [OF sp] by blast
      then have "c # cs = [] @ l @ b" using l by simp
      then show ?thesis by blast
    next
      assume "l \<in> set ls"
      then have "l \<in> set (split_on sep cs)" using sp by simp
      then obtain a b where "cs = a @ l @ b" using Cons.IH by blast
      then have "c # cs = (c # a) @ l @ b" by simp
      then show ?thesis by blast
    qed
  qed
qed

lemma trim_part: "\<exists>a b. l = a @ trim l @ b"
proof -
  let ?m = "dropWhile is_space l"
  have 1: "l = takeWhile is_space l @ ?m" by simp
  have "?m = rev (takeWhile is_space (rev ?m) @ dropWhile is_space (rev ?m))"
    by (simp only: takeWhile_dropWhile_id rev_rev_ident)
  also have "\<dots> = rev (dropWhile is_space (rev ?m)) @ rev (takeWhile is_space (rev ?m))"
    by (simp only: rev_append)
  finally have 2: "?m = trim l @ rev (takeWhile is_space (rev ?m))"
    by (simp only: trim_def)
  have "l = takeWhile is_space l @ trim l @ rev (takeWhile is_space (rev ?m))"
    using 1 2 by metis
  then show ?thesis by blast
qed

lemma includes_in_part:
  assumes "js_includes p x" and "\<exists>a b. s = a @ x @ b"
  shows "js_includes p s"
proof -
  from assms(1) obtain a b where "x = a @ p @ b" using js_includes_iff by blast
  moreover from assms(2) obtain c d where "s = c @ x @ d" by blast
  ultimately have "s = (c @ a) @ p @ (b @ d)" by simp
  then show ?thesis using js_includes_iff by blast
qed

lemma starts_with_includes: "starts_with p s \<Longrightarrow> js_includes p s"
  by (cases s) (auto simp: starts_with_iff)

lemma replace_first_prefix:
  "starts_with p s \<Longrightarrow> p \<noteq> [] \<Longrightarrow> replace_first p r s = r @ drop (length p) s"
  by (cases s) (auto simp: starts_with_iff)

lemma select_initial_first:
  assumes "dataLines_initial b = l # ls"
  shows "select_body_initial b = trim (drop 5 l)"
proof -
  have "l \<in> set (dataLines_initial b)" using assms by simp
  then have mem: "l \<in> set (split_on CHR 0x0A b)" and st: "starts_with ''data:'' l"
    by (auto simp: dataLines_initial_def)
  have "js_includes ''data:'' b"
    using includes_in_part [OF starts_with_includes [OF st] split_on_part [OF mem]] .
  moreover have "replace_first ''data:'' [] l = drop 5 l"
    using replace_first_prefix [OF st, of "[]"] by (simp add: eval_nat_numeral)
  ultimately show ?thesis using assms by (simp add: select_body_initial_def)
qed

lemma trim_strip: "trim (strip_data_prefix l) = (if starts_with ''data:'' l then trim (drop 5 l) else trim l)"
  by (simp add: strip_data_prefix_def trim_def)

lemma select_grpc_last:
  assumes "dataLines_grpc b = l # ls"
  shows "select_body_grpc b = trim (drop 5 (last (l # ls)))"
proof -
  let ?x = "last (l # ls)"
  have "?x \<in> set (dataLines_grpc b)" using assms last_in_set [of "l # ls"] by simp
  then obtain l0 where mem: "l0 \<in> set (split_on CHR 0x0A b)" and x: "?x = trim l0"
    and st: "starts_with ''data:'' ?x"
    by (auto simp: dataLines_grpc_def)
  have "js_includes ''data:'' l0"
    using includes_in_part [OF starts_with_includes [OF st]] trim_part [of l0] x by simp
  then have "js_includes ''data:'' b"
    using includes_in_part [OF _ split_on_part [OF mem]] by blast
  then show ?thesis using assms st by (simp add: select_body_grpc_def trim_strip del: last.simps)
qed

lemma select_initial_none: "dataLines_initial b = [] \<Longrightarrow> select_body_initial b = b"
  by (simp add: select_body_initial_def)

lemma select_grpc_none: "dataLines_grpc b = [] \<Longrightarrow> select_body_grpc b = b"
  by (simp add: select_body_grpc_def)

lemma decode_initial_data:
  "decodeBody unzip response = Inr b \<Longrightarrow>
   flightData (decode_initial parse unzip response) =
     (case parse (select_body_initial b) of None \<Rightarrow> JStr (body response) | Some fd \<Rightarrow> fd)"
  by (simp add: decode_initial_def inspect_flightData_def Let_def split: option.split)

lemma decode_grpc_data:
  "flightData (decode_grpc parse response) =
     (case parse (select_body_grpc (body response)) of
        None \<Rightarrow> JStr (body response) | Some fd \<Rightarrow> fd)"
  by (simp add: decode_grpc_def Let_def split: option.split)

text \<open>
  C3, as the code has it. With \<open>b\<close> the decompressed body: \<^verbatim>\<open>/api/flight-search\<close> parses
  the text after \<open>data:\<close> of the first line that starts with \<open>data:\<close>;
  \<^verbatim>\<open>/api/flight-search-grpc\<close>, the other initial search, parses that of the last such line
  (of the trimmed lines longer than 5 characters) of the raw body; both parse the whole body
  when there is no such line; \<^verbatim>\<open>/api/flight-search-sort\<close> always parses the whole body.
  When \<^verbatim>\<open>JSON.parse\<close> throws, the data is the raw body.
\<close>

theorem decoder_line_selection:
  assumes "decodeBody unzip response = Inr b"
  shows "(dataLines_initial b = l # ls \<longrightarrow>
            flightData (decode_initial parse unzip response) =
              (case parse (trim (drop 5 l)) of None \<Rightarrow> JStr (body response) | Some fd \<Rightarrow> fd))
       \<and> (dataLines_initial b = [] \<longrightarrow>
            flightData (decode_initial parse unzip response) =
              (case parse b of None \<Rightarrow> JStr (body response) | Some fd \<Rightarrow> fd))
       \<and> (dataLines_grpc (body response) = g # gs \<longrightarrow>
            flightData (decode_grpc parse response) =
              (case parse (trim (drop 5 (last (g # gs)))) of
                 None \<Rightarrow> JStr (body response) | Some fd \<Rightarrow> fd))
       \<and> (dataLines_grpc (body response) = [] \<longrightarrow>
            flightData (decode_grpc parse response) =
              (case parse (body response) of None \<Rightarrow> JStr (body response) | Some fd \<Rightarrow> fd))
       \<and> result_field (sort_success parse response req parsed) ''data'' =
            (case parse (body response) of None \<Rightarrow> JStr (body response) | Some fd \<Rightarrow> fd)"
proof (intro conjI impI)
  assume "dataLines_initial b = l # ls"
  then show "flightData (decode_initial parse unzip response) =
      (case parse (trim (drop 5 l)) of None \<Rightarrow> JStr (body response) | Some fd \<Rightarrow> fd)"
    using assms by (simp only: decode_initial_data select_initial_first)
next
  assume "dataLines_initial b = []"
  then show "flightData (decode_initial parse unzip response) =
      (case parse b of None \<Rightarrow> JStr (body response) | Some fd \<Rightarrow> fd)"
    using assms by (simp only: decode_initial_data select_initial_none)
next
  assume "dataLines_grpc (body response) = g # gs"
  then show "flightData (decode_grpc parse response) =
      (case parse (trim (drop 5 (last (g # gs)))) of
         None \<Rightarrow> JStr (body response) | Some fd \<Rightarrow> fd)"
    by (simp only: decode_grpc_data select_grpc_last)
next
  assume "dataLines_grpc (body response) = []"
  then show "flightData (decode_grpc parse response) =
      (case parse (body response) of None \<Rightarrow> JStr (body response) | Some fd \<Rightarrow> fd)"
    by (simp only: decode_grpc_data select_grpc_none)
next
  show "result_field (sort_success parse response req parsed) ''data'' =
      (case parse (body response) of None \<Rightarrow> JStr (body response) | Some fd \<Rightarrow> fd)"
    by (simp add: sort_success_def result_field_def select_body_sort_def)
qed

lemma two_events_parts:
  "decodeBody no_unzip two_events_response = Inr (body two_events_response)"
  "dataLines_initial (body two_events_response) = [''data: 1'', ''data: 2'']"
  "dataLines_grpc (body two_events_response) = [''data: 1'', ''data: 2'']"
  by (simp_all add: decodeBody_def two_events_response_def plain_response_def
      dataLines_initial_def dataLines_grpc_def trim_def is_space_def)

lemma example_parse_numbers:
  "example_parse (trim (drop 5 ''data: 1'')) = Some (JNum 1)"
  "example_parse (trim (drop 5 ''data: 2'')) = Some (JNum 2)"
  "example_parse (body two_events_response) = None"
  by (simp_all add: example_parse_def trim_def is_space_def blocked_json_text_def
      blocked_with_id_text_def quoted_def two_events_response_def plain_response_def)

text \<open>
  The theorem at an event stream of the two events \<^verbatim>\<open>data: 1\<close> and \<^verbatim>\<open>data: 2\<close>: the
  initial search decodes 1, the gRPC variant 2.
\<close>

theorem decoder_line_selection_witness:
  "decodeBody no_unzip two_events_response = Inr (body two_events_response)
   \<and> dataLines_initial (body two_events_response) = [''data: 1'', ''data: 2'']
   \<and> dataLines_grpc (body two_events_response) = [''data: 1'', ''data: 2'']
   \<and> flightData (decode_initial example_parse no_unzip two_events_response) = JNum 1
   \<and> flightData (decode_grpc example_parse two_events_response) = JNum 2"
proof -
  note r = decoder_line_selection [where parse = example_parse and unzip = no_unzip
      and response = two_events_response and b = "body two_events_response"
      and l = "''data: 1''" and ls = "[''data: 2'']" and g = "''data: 1''"
      and gs = "[''data: 2'']" and req = example_sort_request and parsed = example_parsed,
      OF two_events_parts(1)]
  from r two_events_parts(2)
  have i: "flightData (decode_initial example_parse no_unzip two_events_response) =
      (case example_parse (trim (drop 5 ''data: 1'')) of
         None \<Rightarrow> JStr (body two_events_response) | Some fd \<Rightarrow> fd)"
    by blast
  from r two_events_parts(3)
  have g: "flightData (decode_grpc example_parse two_events_response) =
      (case example_parse (trim (drop 5 (last [''data: 1'', ''data: 2'']))) of
         None \<Rightarrow> JStr (body two_events_response) | Some fd \<Rightarrow> fd)"
    by blast
  have i': "flightData (decode_initial example_parse no_unzip two_events_response) = JNum 1"
    using i by (simp only: example_parse_numbers option.case)
  have lst: "last [''data: 1'', ''data: 2''] = ''data: 2''"
    by simp
  have g': "flightData (decode_grpc example_parse two_events_response) = JNum 2"
    using g by (simp only: lst example_parse_numbers option.case)
  show ?thesis using two_events_parts i' g' by blast
qed

text \<open>
  C3 as it is stated has the sort/refine search parse the last \<open>data:\<close> line. On the event
  stream of the two events \<^verbatim>\<open>data: 1\<close> and \<^verbatim>\<open>data: 2\<close> that would be 2; the handler gives
  the whole body to \<^verbatim>\<open>JSON.parse\<close>, which throws, and the data of its result is the raw
  body.
\<close>

theorem sort_search_parses_whole_body:
  "result_field (sort_success example_parse two_events_response example_sort_request
                   example_parsed) ''data''
     = JStr (body two_events_response)
   \<and> result_field (sort_success example_parse two_events_response example_sort_request
                     example_parsed) ''data'' \<noteq> JNum 2"
  by (simp add: sort_success_def result_field_def select_body_sort_def example_parse_numbers)

section \<open>Properties of the sort/refine handler\<close>

lemma parse_example_url: "parseTripUrl example_url = Inr example_parsed"
  unfolding example_url_def example_parsed_def by code_simp

lemma root_without_combined:
  "map_of (resp_cookies rootResponse) ''_combined'' = None \<Longrightarrow>
   combined (getCookiesFromHostname rootResponse) = None"
  by (simp add: getCookiesFromHostname_def Let_def)

text \<open>
  The initial search always has a \<^verbatim>\<open>_combined\<close> entry, and with an entry that is a string
  the builder does fall back to a generated transaction id.
\<close>

lemma initial_flow_has_combined: "combined (finalCookies_of rootCookies targetResponse now) \<noteq> None"
  by (simp add: finalCookies_of_def Let_def split: option.split)

lemma builder_falls_back_on_string:
  "extension_value
     (case buildFlightSearchPayload p (c\<lparr>combined := Some (CombinedString s)\<rparr>) b pid now of
        Inl e \<Rightarrow> JUndefined | Inr payload \<Rightarrow> payload)
     ''flt_app_session_transactionId''
   = JStr (generateFltAppSessionTransactionId now)"
  by (simp add: buildFlightSearchPayload_def extension_value_def ext_def ext_no_value_def
      or_str_def generateFltAppSessionTransactionId_def Let_def)

text \<open>
  C10. In the sort/refine handler, when the root visit sets no \<^verbatim>\<open>_combined\<close> cookie, the
  session state has no \<^verbatim>\<open>_combined\<close> entry, \<^verbatim>\<open>buildFlightSearchPayload\<close> throws the
  \<^verbatim>\<open>TypeError\<close> of line 558 instead of generating a transaction id, and the handler answers
  with status 500 and \<open>success = false\<close> having issued the root visit only: the main search
  call is never made.
\<close>

theorem sort_flow_throws_without_combined:
  assumes "str_truthy (sr_url req)"
    and "str_truthy (sr_productId req)"
    and "parseTripUrl (the (sr_url req)) = Inr parsed"
    and "se_root env = Inr rootResponse"
    and "map_of (resp_cookies rootResponse) ''_combined'' = None"
  shows "combined (getCookiesFromHostname rootResponse) = None
       \<and> buildFlightSearchPayload (params parsed) (getCookiesFromHostname rootResponse)
            fltBatchId pid now = Inl combined_type_error
       \<and> flight_search_sort parse env req =
            ([GetRoot], failure_response (se_dev env) combined_type_error)
       \<and> PostFlightListSearch \<notin> set (fst (flight_search_sort parse env req))
       \<and> http_status (snd (flight_search_sort parse env req)) = 500
       \<and> result_field (snd (flight_search_sort parse env req)) ''success'' = JBool False"
proof -
  have c: "combined (getCookiesFromHostname rootResponse) = None"
    using assms(5) by (rule root_without_combined)
  have b: "\<And>f q n. buildFlightSearchPayload (params parsed)
        (getCookiesFromHostname rootResponse) f q n = Inl combined_type_error"
    using c by (simp add: buildFlightSearchPayload_def)
  have h: "flight_search_sort parse env req =
      ([GetRoot], failure_response (se_dev env) combined_type_error)"
    using assms(1-4) b by (simp add: flight_search_sort_def Let_def)
  show ?thesis
    using c b h by (simp add: failure_response_def result_field_def)
qed

lemma example_sort_parts:
  "str_truthy (sr_url example_sort_request)"
  "str_truthy (sr_productId example_sort_request)"
  "the (sr_url example_sort_request) = example_url"
  "se_root example_sort_env =
     Inr \<lparr>statusCode = 200, body = [], resp_headers = [],
          resp_cookies = [(''GUID'', ''09034177410240614425''),
                          (''UBT_VID'', ''1769744808271.65f8Qt49rXge'')]\<rparr>"
  by (simp_all add: example_sort_request_def example_sort_env_def str_truthy_def
      example_url_def)

text \<open>
  The theorem at a run whose root visit sets \<^verbatim>\<open>GUID\<close> and \<^verbatim>\<open>UBT_VID\<close> only.
\<close>

theorem sort_flow_throws_without_combined_witness:
  "str_truthy (sr_url example_sort_request)
   \<and> str_truthy (sr_productId example_sort_request)
   \<and> parseTripUrl (the (sr_url example_sort_request)) = Inr example_parsed
   \<and> se_root example_sort_env =
        Inr \<lparr>statusCode = 200, body = [], resp_headers = [],
             resp_cookies = [(''GUID'', ''09034177410240614425''),
                             (''UBT_VID'', ''1769744808271.65f8Qt49rXge'')]\<rparr>
   \<and> map_of [(''GUID'', ''09034177410240614425''),
              (''UBT_VID'', ''1769744808271.65f8Qt49rXge'')] ''_combined'' = None
   \<and> fst (flight_search_sort example_parse example_sort_env example_sort_request) = [GetRoot]
   \<and> result_field (snd (flight_search_sort example_parse example_sort_env
                            example_sort_request)) ''success'' = JBool False"
proof -
  let ?root = "\<lparr>statusCode = 200, body = [], resp_headers = [],
                 resp_cookies = [(''GUID'', ''09034177410240614425''),
                                 (''UBT_VID'', ''1769744808271.65f8Qt49rXge'')]\<rparr>"
  have h3: "parseTripUrl (the (sr_url example_sort_request)) = Inr example_parsed"
    by (simp only: example_sort_parts(3) parse_example_url)
  have h5: "map_of (resp_cookies ?root) ''_combined'' = None"
    by simp
  note r = sort_flow_throws_without_combined [where req = example_sort_request
      and env = example_sort_env and parsed = example_parsed and rootResponse = ?root
      and parse = example_parse, OF example_sort_parts(1) example_sort_parts(2) h3
      example_sort_parts(4) h5]
  from r have f: "flight_search_sort example_parse example_sort_env example_sort_request =
      ([GetRoot], failure_response (se_dev example_sort_env) combined_type_error)"
    by blast
  from r have s: "result_field (snd (flight_search_sort example_parse example_sort_env
      example_sort_request)) ''success'' = JBool False"
    by blast
  have f': "fst (flight_search_sort example_parse example_sort_env example_sort_request)
      = [GetRoot]"
    using f by simp
  show ?thesis
    using example_sort_parts(1) example_sort_parts(2) h3 example_sort_parts(4) h5 f' s
    by simp
qed

end
